theory Spec2Isabelle
  imports Complex_Main
begin

section \<open>The Decypharr download client (media\_manager/torrent/decypharr.py)\<close>

text \<open>
  The client talks to a QBittorrent-compatible HTTP service through the \<open>requests\<close>
  library. The library call \<open>session.request(...)\<close> is the boundary of the model: what
  the code passes to it is an \<open>http_request\<close>, what comes back is either a response or a
  raised exception. The remote service (and the session object's own connection pool and
  cookie jar) is a deterministic function of the requests sent so far.

  Strings are \<open>char list\<close>, so a text holds code points below 256 only.
\<close>

subsection \<open>Values of the Python runtime\<close>

text \<open>
  What \<open>response.json()\<close> returns: Python's view of a JSON document. An object is a \<open>dict\<close>,
  kept as its items in order (the keys of a parsed object are distinct strings). A float is
  kept as its value; Python's parser also accepts \<open>NaN\<close> and the infinities, which behave
  here like any other nonzero float.
\<close>

datatype jvalue =
    JNull
  | JBool bool
  | JInt int
  | JFloat rat
  | JStr string
  | JArr "jvalue list"
  | JObj "(string \<times> jvalue) list"

text \<open>
  An f-string is kept as its pieces, the literal text and the interpolated values, in
  order. Exceptions are instances of Python's \<open>Exception\<close>; a \<open>RuntimeError\<close> carries the
  message it was raised with, an exception of the libraries carries its text.
  \<open>CookieConflictError\<close> (of \<open>requests\<close>) and \<open>RecursionError\<close> are subclasses of
  \<open>RuntimeError\<close> in Python; they are kept apart from the \<open>RuntimeError\<close>s the client raises
  itself.
\<close>

datatype piece =
    Lit string
  | PStr string
  | PInt int
  | PJson jvalue
  | PExn exn
and exn =
    RuntimeError "piece list"
  | RequestException string
  | ValueError string
  | KeyError jvalue
  | IndexError string
  | TypeError string
  | AttributeError string
  | CookieConflictError string
  | RecursionError string
  | OtherException string string

type_synonym msg = "piece list"

text \<open>The class of an exception, \<open>type(e).__name__\<close>.\<close>

fun exn_type :: "exn \<Rightarrow> string" where
  "exn_type (RuntimeError m) = ''RuntimeError''"
| "exn_type (RequestException s) = ''RequestException''"
| "exn_type (ValueError s) = ''ValueError''"
| "exn_type (KeyError k) = ''KeyError''"
| "exn_type (IndexError s) = ''IndexError''"
| "exn_type (TypeError s) = ''TypeError''"
| "exn_type (AttributeError s) = ''AttributeError''"
| "exn_type (CookieConflictError s) = ''CookieConflictError''"
| "exn_type (RecursionError s) = ''RecursionError''"
| "exn_type (OtherException cls s) = cls"

text \<open>Truthiness of an optional string (\<open>None\<close> and \<open>""\<close> are false) and \<open>x or d\<close>.\<close>

fun truthy :: "string option \<Rightarrow> bool" where
  "truthy None = False"
| "truthy (Some s) = (s \<noteq> [])"

fun py_or :: "string option \<Rightarrow> string \<Rightarrow> string" where
  "py_or None d = d"
| "py_or (Some s) d = (if s \<noteq> [] then s else d)"

text \<open>Truthiness of a parsed JSON value (\<open>not torrents\<close>).\<close>

fun jtruthy :: "jvalue \<Rightarrow> bool" where
  "jtruthy JNull = False"
| "jtruthy (JBool b) = b"
| "jtruthy (JInt n) = (n \<noteq> 0)"
| "jtruthy (JFloat x) = (x \<noteq> 0)"
| "jtruthy (JStr s) = (s \<noteq> [])"
| "jtruthy (JArr xs) = (xs \<noteq> [])"
| "jtruthy (JObj kvs) = (kvs \<noteq> [])"

fun py_type_name :: "jvalue \<Rightarrow> string" where
  "py_type_name JNull = ''NoneType''"
| "py_type_name (JBool b) = ''bool''"
| "py_type_name (JInt n) = ''int''"
| "py_type_name (JFloat x) = ''float''"
| "py_type_name (JStr s) = ''str''"
| "py_type_name (JArr xs) = ''list''"
| "py_type_name (JObj kvs) = ''dict''"

definition not_subscriptable :: "jvalue \<Rightarrow> exn" where
  "not_subscriptable j =
     TypeError ([CHR 0x27] @ py_type_name j @ [CHR 0x27] @ '' object is not subscriptable'')"

text \<open>\<open>torrents[0]\<close>. The keys of a parsed JSON object are strings, so the key \<open>0\<close> is never there.\<close>

fun index0 :: "jvalue \<Rightarrow> exn + jvalue" where
  "index0 (JArr []) = Inl (IndexError ''list index out of range'')"
| "index0 (JArr (x # xs)) = Inr x"
| "index0 (JStr []) = Inl (IndexError ''string index out of range'')"
| "index0 (JStr (ch # s)) = Inr (JStr [ch])"
| "index0 (JObj kvs) = Inl (KeyError (JInt 0))"
| "index0 j = Inl (not_subscriptable j)"

text \<open>\<open>torrent_info.get(key, default)\<close>: a method of \<open>dict\<close> only.\<close>

fun dict_get :: "jvalue \<Rightarrow> string \<Rightarrow> jvalue \<Rightarrow> exn + jvalue" where
  "dict_get (JObj kvs) k d = Inr (case map_of kvs k of Some v \<Rightarrow> v | None \<Rightarrow> d)"
| "dict_get j k d =
     Inl (AttributeError ([CHR 0x27] @ py_type_name j @ [CHR 0x27] @ '' object has no attribute ''
          @ [CHR 0x27] @ ''get'' @ [CHR 0x27]))"

text \<open>\<open>state in (...)\<close> for a tuple of strings: only an equal string is a member.\<close>

fun py_in :: "jvalue \<Rightarrow> string list \<Rightarrow> bool" where
  "py_in (JStr s) xs = (s \<in> set xs)"
| "py_in j xs = False"

text \<open>\<open>str.isspace\<close> on the code points below 256, \<open>str.strip()\<close> and \<open>str.rstrip('/')\<close>.\<close>

definition py_isspace :: "char \<Rightarrow> bool" where
  "py_isspace ch = ((of_char ch :: nat) \<in> {9, 10, 11, 12, 13, 28, 29, 30, 31, 32, 133, 160})"

definition strip :: "string \<Rightarrow> string" where
  "strip s = rev (dropWhile py_isspace (rev (dropWhile py_isspace s)))"

definition rstrip_slash :: "string \<Rightarrow> string" where
  "rstrip_slash s = rev (dropWhile (\<lambda>ch. ch = CHR ''/'') (rev s))"

subsection \<open>Data model\<close>

datatype TorrentStatus = unknown | downloading | finished | error

text \<open>The fields of \<open>IndexerQueryResult\<close> the client reads (\<open>title\<close>, \<open>quality\<close>, \<open>download_url\<close>).\<close>

record 'q IndexerQueryResult =
  result_title :: string
  result_quality :: 'q
  download_url :: string

record 'q Torrent =
  status :: TorrentStatus
  title :: string
  quality :: 'q
  imported :: bool
  hash :: string

text \<open>\<open>MediaManagerConfig().torrents.decypharr\<close>; \<open>None\<close> is Python's \<open>None\<close>.\<close>

record decypharr_config =
  config_base_url :: string
  username :: "string option"
  password :: "string option"
  category_name :: "string option"
  category_save_path :: "string option"

text \<open>The attributes of the client object (\<open>cookie\<close> is \<open>self._cookie\<close>).\<close>

record client =
  config :: decypharr_config
  base_url :: string
  timeout :: nat
  cookie :: "string option"

subsection \<open>The HTTP boundary\<close>

text \<open>A Python dict of form fields, query parameters or cookies, in insertion order.\<close>

type_synonym form = "(string \<times> string option) list"

record http_request =
  req_method :: string
  req_url :: string
  req_params :: "form option"
  req_data :: "form option"
  req_cookies :: "form option"
  req_timeout :: nat

text \<open>
  A cookie as a cookie jar holds it. Two cookies of one name can sit in a jar when their
  domain or path differ. The value is \<open>None\<close> for a cookie set without \<open>=\<close>.
\<close>

record cookie =
  ck_name :: string
  ck_value :: "string option"
  ck_domain :: string
  ck_path :: string

text \<open>
  \<open>cookies\<close> is \<open>response.cookies\<close>, the cookies this response set; \<open>history_cookies\<close> are the
  cookies set by the redirect responses that led to it (\<open>response.history\<close>), in order.
  \<open>json\<close> is the outcome of \<open>response.json()\<close>: the parsed value, or \<open>Inl\<close> the exception it
  raises, a \<open>ValueError\<close> on a body that is not JSON, a \<open>RecursionError\<close> on a body nested
  too deep.
\<close>

record http_response =
  status_code :: int
  resp_text :: string
  cookies :: "cookie list"
  history_cookies :: "cookie list"
  json :: "exn + jvalue"

text \<open>
  \<open>response.cookies[name]\<close> (\<open>RequestsCookieJar._find_no_duplicates\<close>) goes through the
  cookies of that name in the jar's order, keeping the value of the last one in \<open>toReturn\<close>
  and raising \<open>CookieConflictError\<close> when it comes to a further one with \<open>toReturn\<close> already
  set; at the end it returns \<open>toReturn\<close> if that is a non-empty string and raises \<open>KeyError\<close>
  otherwise. \<open>name in response.cookies\<close> looks the name up and answers \<open>False\<close> on
  \<open>KeyError\<close>, \<open>True\<close> on a conflict.
\<close>

definition not_found :: "string \<Rightarrow> exn" where
  "not_found name =
     KeyError (JStr (''name='' @ [CHR 0x27] @ name @ [CHR 0x27] @ '', domain=None, path=None''))"

fun scan_values :: "string \<Rightarrow> string option \<Rightarrow> string option list \<Rightarrow> exn + string option" where
  "scan_values name toReturn [] = Inr toReturn"
| "scan_values name toReturn (v # vs) =
     (case toReturn of
        Some x \<Rightarrow>
          Inl (CookieConflictError (''There are multiple cookies with name, '' @ [CHR 0x27] @ name
                                    @ [CHR 0x27]))
      | None \<Rightarrow> scan_values name v vs)"

definition find_no_duplicates :: "string \<Rightarrow> cookie list \<Rightarrow> exn + string" where
  "find_no_duplicates name jar =
     (case scan_values name None (map ck_value (filter (\<lambda>ck. ck_name ck = name) jar)) of
        Inl e \<Rightarrow> Inl e
      | Inr toReturn \<Rightarrow>
          (case toReturn of
             None \<Rightarrow> Inl (not_found name)
           | Some v \<Rightarrow> if v \<noteq> [] then Inr v else Inl (not_found name)))"

definition cookies_contains :: "string \<Rightarrow> cookie list \<Rightarrow> bool" where
  "cookies_contains name jar =
     (case find_no_duplicates name jar of
        Inr v \<Rightarrow> True
      | Inl e \<Rightarrow> (case e of KeyError k \<Rightarrow> False | _ \<Rightarrow> True))"

datatype level = INFO | WARNING | ERROR

record world =
  sent :: "http_request list"
  logged :: "(level \<times> msg) list"

type_synonym transport = "http_request list \<Rightarrow> http_request \<Rightarrow> exn + http_response"

definition session_request :: "transport \<Rightarrow> http_request \<Rightarrow> world \<Rightarrow> (exn + http_response) \<times> world" where
  "session_request net q w = (net (sent w) q, w\<lparr>sent := sent w @ [q]\<rparr>)"

definition log_info :: "msg \<Rightarrow> world \<Rightarrow> world" where
  "log_info m w = w\<lparr>logged := logged w @ [(INFO, m)]\<rparr>"

definition log_warning :: "msg \<Rightarrow> world \<Rightarrow> world" where
  "log_warning m w = w\<lparr>logged := logged w @ [(WARNING, m)]\<rparr>"

definition log_error :: "msg \<Rightarrow> world \<Rightarrow> world" where
  "log_error m w = w\<lparr>logged := logged w @ [(ERROR, m)]\<rparr>"

subsection \<open>Construction and authentication\<close>

text \<open>
  \<open>_authenticate\<close> (lines 81-105): one POST through the session, no cookies passed.
  \<open>login_request\<close> is what lines 83-90 hand to \<open>session.post\<close>.
\<close>

definition login_request :: "client \<Rightarrow> http_request" where
  "login_request c =
     (let url = base_url c @ ''/api/v2/auth/login'';
          data = [(''username'', username (config c)), (''password'', password (config c))]
      in \<lparr>req_method = ''POST'', req_url = url, req_params = None, req_data = Some data,
          req_cookies = None, req_timeout = timeout c\<rparr>)"

text \<open>The body of the \<open>try\<close> (lines 90-101), and the \<open>except\<close> clause around it.\<close>

definition authenticate_body :: "transport \<Rightarrow> client \<times> world \<Rightarrow> (exn + unit) \<times> client \<times> world" where
  "authenticate_body net cw = (case cw of (c, w) \<Rightarrow>
     (case session_request net (login_request c) w of
        (Inl e, w1) \<Rightarrow> (Inl e, c, w1)
      | (Inr response, w1) \<Rightarrow>
          if status_code response = 403 then
            (Inl (RuntimeError [Lit ''Invalid Decypharr username or password'']), c, w1)
          else if status_code response \<noteq> 200 then
            (Inl (RuntimeError [Lit ''Authentication failed: '', PStr (resp_text response)]), c, w1)
          else if cookies_contains ''SID'' (cookies response) then
            (case find_no_duplicates ''SID'' (cookies response) of
               Inl e \<Rightarrow> (Inl e, c, w1)
             | Inr sid \<Rightarrow>
                 (Inr (), c\<lparr>cookie := Some sid\<rparr>,
                  log_info [Lit ''Successfully authenticated with Decypharr''] w1))
          else (Inr (), c, w1)))"

definition authenticate :: "transport \<Rightarrow> client \<times> world \<Rightarrow> (exn + unit) \<times> client \<times> world" where
  "authenticate net cw =
     (case authenticate_body net cw of
        (Inl e, c1, w1) \<Rightarrow>
          (case e of
             RequestException m \<Rightarrow>
               (Inl (RuntimeError [Lit ''Decypharr authentication failed: '', PExn e]), c1,
                log_error [Lit ''Failed to authenticate with Decypharr: '', PExn e] w1)
           | _ \<Rightarrow> (Inl e, c1, w1))
      | (Inr u, c1, w1) \<Rightarrow> (Inr u, c1, w1))"

text \<open>
  \<open>__init__\<close> (lines 64-79). \<open>new_client\<close> is the object as lines 66-75 set it up, before
  authentication. A constructor that raises leaves no instance behind.
\<close>

definition new_client :: "decypharr_config \<Rightarrow> client" where
  "new_client cfg =
     \<lparr>config = cfg, base_url = rstrip_slash (config_base_url cfg), timeout = 30, cookie = None\<rparr>"

definition init :: "transport \<Rightarrow> decypharr_config \<Rightarrow> world \<Rightarrow> (exn + client) \<times> world" where
  "init net cfg w =
     (let c0 = new_client cfg
      in if truthy (username cfg) \<and> truthy (password cfg) then
           (case authenticate net (c0, w) of
              (Inl e, c1, w1) \<Rightarrow> (Inl e, w1)
            | (Inr u, c1, w1) \<Rightarrow>
                (Inr c1, log_info [Lit ''Decypharr client initialized: '', PStr (base_url c1)] w1))
         else (Inr c0, log_info [Lit ''Decypharr client initialized: '', PStr (base_url c0)] w))"

subsection \<open>Request dispatch\<close>

text \<open>
  \<open>_request\<close> (lines 107-154). \<open>prepare\<close> is what lines 126-139 hand to
  \<open>session.request\<close>: the URL, the cookie dict (or \<open>None\<close>) and the keyword arguments.
\<close>

definition prepare ::
  "client \<Rightarrow> string \<Rightarrow> string \<Rightarrow> form option \<Rightarrow> form option \<Rightarrow> http_request" where
  "prepare c method endpoint params data =
     (let url = base_url c @ endpoint;
          cks = (if truthy (cookie c) then Some [(''SID'', cookie c)] else None)
      in \<lparr>req_method = method, req_url = url, req_params = params, req_data = data,
          req_cookies = cks, req_timeout = timeout c\<rparr>)"

definition request ::
  "transport \<Rightarrow> string \<Rightarrow> string \<Rightarrow> form option \<Rightarrow> form option \<Rightarrow> client \<times> world
     \<Rightarrow> (exn + http_response) \<times> client \<times> world" where
  "request net method endpoint params data cw = (case cw of (c, w) \<Rightarrow>
     (case session_request net (prepare c method endpoint params data) w of
        (Inl e, w1) \<Rightarrow>
          (case e of
             RequestException m \<Rightarrow>
               (Inl (RuntimeError [Lit ''Decypharr request failed: '', PExn e]), c,
                log_error [Lit ''Decypharr request failed: '', PExn e] w1)
           | _ \<Rightarrow> (Inl e, c, w1))
      | (Inr response, w1) \<Rightarrow>
          if status_code response = 403 then
            (Inl (RuntimeError [Lit ''Decypharr authentication required or invalid'']), c, w1)
          else if status_code response \<ge> 400 then
            (Inl (RuntimeError [Lit ''Decypharr API error '', PInt (status_code response),
                                Lit '': '', PStr (resp_text response)]), c, w1)
          else (Inr response, c, w1)))"

subsection \<open>Lifecycle operations\<close>

definition DOWNLOADING_STATE :: "string list" where
  "DOWNLOADING_STATE =
     [''allocating'', ''downloading'', ''metaDL'', ''pausedDL'', ''queuedDL'', ''stalledDL'',
      ''checkingDL'', ''forcedDL'', ''moving'', ''stoppedDL'', ''forcedMetaDL'']"

definition FINISHED_STATE :: "string list" where
  "FINISHED_STATE =
     [''uploading'', ''pausedUP'', ''queuedUP'', ''stalledUP'', ''checkingUP'', ''forcedUP'',
      ''stoppedUP'', ''completed'']"

definition ERROR_STATE :: "string list" where
  "ERROR_STATE = [''missingFiles'', ''error'', ''checkingResumeData'']"

definition UNKNOWN_STATE :: "string list" where
  "UNKNOWN_STATE = [''unknown'']"

text \<open>The \<open>if\<close>/\<open>elif\<close> chain of \<open>get_torrent_status\<close> (lines 274-285).\<close>

definition map_state :: "jvalue \<Rightarrow> client \<times> world \<Rightarrow> (exn + TorrentStatus) \<times> client \<times> world" where
  "map_state state cw = (case cw of (c, w) \<Rightarrow>
     if py_in state DOWNLOADING_STATE then (Inr downloading, c, w)
     else if py_in state FINISHED_STATE then (Inr finished, c, w)
     else if py_in state ERROR_STATE then (Inr error, c, w)
     else if py_in state UNKNOWN_STATE then (Inr unknown, c, w)
     else (Inr unknown, c, log_warning [Lit ''Unknown Decypharr state: '', PJson state] w))"

text \<open>\<open>get_torrent_status\<close> (lines 244-285).\<close>

definition get_torrent_status ::
  "transport \<Rightarrow> 'q Torrent \<Rightarrow> client \<times> world \<Rightarrow> (exn + TorrentStatus) \<times> client \<times> world" where
  "get_torrent_status net torrent cw =
     (let endpoint = ''/api/v2/torrents/info'';
          params = [(''hashes'', Some (hash torrent))]
      in case request net ''GET'' endpoint (Some params) None cw of
           (Inl e, c1, w1) \<Rightarrow> (Inl e, c1, w1)
         | (Inr response, c1, w1) \<Rightarrow>
             (case json response of
                Inl e \<Rightarrow>
                  (case e of
                     ValueError m \<Rightarrow>
                       (Inr unknown, c1,
                        log_error [Lit ''Failed to parse Decypharr response: '', PExn e] w1)
                   | _ \<Rightarrow> (Inl e, c1, w1))
              | Inr torrents \<Rightarrow>
                  if \<not> jtruthy torrents then
                    (Inr unknown, c1,
                     log_warning [Lit ''No information found for torrent: '', PStr (hash torrent)] w1)
                  else
                    (case index0 torrents of
                       Inl e \<Rightarrow> (Inl e, c1, w1)
                     | Inr torrent_info \<Rightarrow>
                         (case dict_get torrent_info ''state'' (JStr ''unknown'') of
                            Inl e \<Rightarrow> (Inl e, c1, w1)
                          | Inr state \<Rightarrow> map_state state (c1, w1)))))"

text \<open>The form of a submission (lines 179-193): locator, category, optional save path.\<close>

definition add_data :: "decypharr_config \<Rightarrow> 'q IndexerQueryResult \<Rightarrow> form" where
  "add_data cfg indexer_result =
     (let category = py_or (category_name cfg) ''movies'';
          data = [(''urls'', Some (download_url indexer_result)), (''category'', Some category)]
      in if truthy (category_save_path cfg)
         then data @ [(''savepath'', category_save_path cfg)]
         else data)"

text \<open>
  \<open>download_torrent\<close> (lines 156-223). \<open>get_torrent_hash\<close> comes from
  \<open>media_manager.torrent.utils\<close>, which is not part of this unit: it is a parameter, and it may
  raise.
\<close>

definition download_torrent ::
  "transport \<Rightarrow> ('q IndexerQueryResult \<Rightarrow> exn + string) \<Rightarrow> 'q IndexerQueryResult
     \<Rightarrow> client \<times> world \<Rightarrow> (exn + 'q Torrent) \<times> client \<times> world" where
  "download_torrent net get_torrent_hash indexer_result cw = (case cw of (c, w) \<Rightarrow>
     let w0 = log_info [Lit ''Adding torrent to Decypharr: '', PStr (result_title indexer_result)] w
     in (case get_torrent_hash indexer_result of
          Inl e \<Rightarrow> (Inl e, c, w0)
        | Inr torrent_hash \<Rightarrow>
            let endpoint = ''/api/v2/torrents/add'';
                data = add_data (config c) indexer_result
            in (case request net ''POST'' endpoint None (Some data) (c, w0) of
                 (Inl e, c1, w1) \<Rightarrow> (Inl e, c1, w1)
               | (Inr response, c1, w1) \<Rightarrow>
                   let response_text = strip (resp_text response) in
                   if response_text \<noteq> ''Ok.'' then
                     (let error_msg = [Lit ''Failed to add torrent to Decypharr: '', PStr response_text]
                      in (Inl (RuntimeError error_msg), c1, log_error error_msg w1))
                   else
                     (let w2 = log_info [Lit ''Successfully added torrent to Decypharr: '',
                                         PStr torrent_hash] w1;
                          torrent = \<lparr>status = unknown, title = result_title indexer_result,
                                     quality = result_quality indexer_result, imported = False,
                                     hash = torrent_hash\<rparr>
                      in case get_torrent_status net torrent (c1, w2) of
                           (Inr st, c2, w3) \<Rightarrow> (Inr (torrent\<lparr>status := st\<rparr>), c2, w3)
                         | (Inl e, c2, w3) \<Rightarrow>
                             (Inr torrent, c2,
                              log_warning [Lit ''Could not get initial status: '', PExn e] w3)))))"

text \<open>\<open>remove_torrent\<close> (lines 225-242).\<close>

definition remove_torrent ::
  "transport \<Rightarrow> 'q Torrent \<Rightarrow> bool \<Rightarrow> client \<times> world \<Rightarrow> (exn + unit) \<times> client \<times> world" where
  "remove_torrent net torrent delete_data cw = (case cw of (c, w) \<Rightarrow>
     let w0 = log_info [Lit ''Removing torrent from Decypharr: '', PStr (title torrent)] w;
         endpoint = ''/api/v2/torrents/delete'';
         data = [(''hashes'', Some (hash torrent)),
                 (''deleteFiles'', Some (if delete_data then ''true'' else ''false''))]
     in (case request net ''POST'' endpoint None (Some data) (c, w0) of
          (Inl e, c1, w1) \<Rightarrow> (Inl e, c1, w1)
        | (Inr response, c1, w1) \<Rightarrow>
            (Inr (), c1, log_info [Lit ''Successfully removed torrent: '', PStr (hash torrent)] w1)))"

text \<open>\<open>pause_torrent\<close> (lines 287-300) and \<open>resume_torrent\<close> (lines 302-315).\<close>

definition pause_torrent ::
  "transport \<Rightarrow> 'q Torrent \<Rightarrow> client \<times> world \<Rightarrow> (exn + unit) \<times> client \<times> world" where
  "pause_torrent net torrent cw = (case cw of (c, w) \<Rightarrow>
     let w0 = log_info [Lit ''Pausing torrent: '', PStr (title torrent)] w;
         endpoint = ''/api/v2/torrents/pause'';
         data = [(''hashes'', Some (hash torrent))]
     in (case request net ''POST'' endpoint None (Some data) (c, w0) of
          (Inl e, c1, w1) \<Rightarrow> (Inl e, c1, w1)
        | (Inr response, c1, w1) \<Rightarrow>
            (Inr (), c1, log_info [Lit ''Successfully paused torrent: '', PStr (hash torrent)] w1)))"

definition resume_torrent ::
  "transport \<Rightarrow> 'q Torrent \<Rightarrow> client \<times> world \<Rightarrow> (exn + unit) \<times> client \<times> world" where
  "resume_torrent net torrent cw = (case cw of (c, w) \<Rightarrow>
     let w0 = log_info [Lit ''Resuming torrent: '', PStr (title torrent)] w;
         endpoint = ''/api/v2/torrents/resume'';
         data = [(''hashes'', Some (hash torrent))]
     in (case request net ''POST'' endpoint None (Some data) (c, w0) of
          (Inl e, c1, w1) \<Rightarrow> (Inl e, c1, w1)
        | (Inr response, c1, w1) \<Rightarrow>
            (Inr (), c1, log_info [Lit ''Successfully resumed torrent: '', PStr (hash torrent)] w1)))"

text \<open>\<open>get_torrent_files\<close> (lines 317-336).\<close>

definition get_torrent_files ::
  "transport \<Rightarrow> 'q Torrent \<Rightarrow> client \<times> world \<Rightarrow> (exn + jvalue) \<times> client \<times> world" where
  "get_torrent_files net torrent cw =
     (let endpoint = ''/api/v2/torrents/files'';
          params = [(''hash'', Some (hash torrent))]
      in case request net ''GET'' endpoint (Some params) None cw of
           (Inl e, c1, w1) \<Rightarrow> (Inl e, c1, w1)
         | (Inr response, c1, w1) \<Rightarrow>
             (case json response of
                Inr files \<Rightarrow> (Inr files, c1, w1)
              | Inl e \<Rightarrow>
                  (case e of
                     ValueError m \<Rightarrow>
                       (Inr (JArr []), c1, log_error [Lit ''Failed to parse files response''] w1)
                   | _ \<Rightarrow> (Inl e, c1, w1))))"

text \<open>\<open>health_check\<close> (lines 338-353): the whole body sits in \<open>try\<close> / \<open>except Exception\<close>.\<close>

definition health_check :: "transport \<Rightarrow> client \<times> world \<Rightarrow> (exn + bool) \<times> client \<times> world" where
  "health_check net cw =
     (let endpoint = ''/api/v2/app/version''
      in case request net ''GET'' endpoint None None cw of
           (Inr response, c1, w1) \<Rightarrow>
             (let version = strip (resp_text response)
              in (Inr True, c1, log_info [Lit ''Decypharr health check OK, version: '', PStr version] w1))
         | (Inl e, c1, w1) \<Rightarrow>
             (Inr False, c1, log_error [Lit ''Decypharr health check failed: '', PExn e] w1))"

subsection \<open>The session's cookie jar\<close>

text \<open>
  The client sends everything through one \<open>requests.Session\<close> (lines 71, 90, 132). Besides
  the cookies a call passes, the session sends the cookies of its own jar, which it fills
  from the responses. That is the library's doing and not the client's; it is written down
  here as far as needed to say what goes out with a request.
  \<^item> After an exchange that returned a response, the jar holds in addition the cookies that
    the redirect responses and the final response set, a cookie taking the place of an
    earlier one of the same domain, path and name (\<open>Session.send\<close>,
    \<open>extract_cookies_to_jar\<close>). What the jar holds after an exchange that raised is not said
    (\<open>None\<close>). The cookies listed with a response are those it set and the jar accepted; a
    response that removes a cookie from the jar (an expiry in the past) is outside of this.
  \<^item> A call is dispatched with the cookies of the jar that the jar's policy returns for its
    URL, and with the cookies passed in the call, which carry no domain and are not kept in
    the jar (\<open>Session.prepare_request\<close>, \<open>merge_cookies\<close>).

  The policy (\<open>DefaultCookiePolicy.return_ok\<close> of \<open>http.cookiejar\<close>: domain, path, secure flag)
  is a parameter. The history is the list of calls made through the session; the remote
  service being a function of it, the responses can be read off again. The order of the
  cookies within the header is not meant.
\<close>

type_synonym policy = "cookie \<Rightarrow> string \<Rightarrow> bool"

fun replay :: "transport \<Rightarrow> http_request list \<Rightarrow> http_request list \<Rightarrow> (exn + http_response) list" where
  "replay net before [] = []"
| "replay net before (q # qs) = net before q # replay net (before @ [q]) qs"

definition same_key :: "cookie \<Rightarrow> cookie \<Rightarrow> bool" where
  "same_key a b = (ck_domain a = ck_domain b \<and> ck_path a = ck_path b \<and> ck_name a = ck_name b)"

definition set_cookie :: "cookie list \<Rightarrow> cookie \<Rightarrow> cookie list" where
  "set_cookie jar ck =
     (if filter (same_key ck) jar = [] then jar @ [ck]
      else map (\<lambda>old. if same_key ck old then ck else old) jar)"

fun jar_from :: "cookie list \<Rightarrow> (exn + http_response) list \<Rightarrow> cookie list option" where
  "jar_from jar [] = Some jar"
| "jar_from jar (Inl e # rest) = None"
| "jar_from jar (Inr r # rest) =
     jar_from (foldl set_cookie jar (history_cookies r @ cookies r)) rest"

definition jar_after :: "transport \<Rightarrow> http_request list \<Rightarrow> cookie list option" where
  "jar_after net history = jar_from [] (replay net [] history)"

definition dispatched_cookies ::
  "policy \<Rightarrow> transport \<Rightarrow> http_request list \<Rightarrow> http_request \<Rightarrow> form option" where
  "dispatched_cookies return_ok net history q =
     (case jar_after net history of
        None \<Rightarrow> None
      | Some jar \<Rightarrow>
          Some (map (\<lambda>ck. (ck_name ck, ck_value ck))
                  (filter (\<lambda>ck. return_ok ck (req_url q)) jar)
                @ (case req_cookies q of None \<Rightarrow> [] | Some d \<Rightarrow> d)))"

subsection \<open>Fixtures\<close>

text \<open>
  A remote service that answers the \<open>n\<close>-th request with the \<open>n\<close>-th scripted outcome and
  refuses the connection afterwards; concrete responses, a configuration, a client, a query
  result and a record to evaluate the operations on.
\<close>

definition scripted :: "(exn + http_response) list \<Rightarrow> transport" where
  "scripted outcomes history q =
     (if length history < length outcomes then outcomes ! length history
      else Inl (RequestException ''Connection refused''))"

definition reply :: "int \<Rightarrow> string \<Rightarrow> exn + http_response" where
  "reply code body =
     Inr \<lparr>status_code = code, resp_text = body, cookies = [], history_cookies = [],
          json = Inl (ValueError ''Expecting value'')\<rparr>"

definition reply_json :: "jvalue \<Rightarrow> exn + http_response" where
  "reply_json j =
     Inr \<lparr>status_code = 200, resp_text = [], cookies = [], history_cookies = [], json = Inr j\<rparr>"

definition reply_raising :: "exn \<Rightarrow> exn + http_response" where
  "reply_raising e =
     Inr \<lparr>status_code = 200, resp_text = [], cookies = [], history_cookies = [], json = Inl e\<rparr>"

definition example_config :: decypharr_config where
  "example_config =
     \<lparr>config_base_url = ''http://decypharr:8282/'', username = Some ''admin'',
      password = Some ''secret'', category_name = Some ''MediaManager'',
      category_save_path = Some []\<rparr>"

definition example_client :: client where
  "example_client =
     \<lparr>config = example_config, base_url = ''http://decypharr:8282'', timeout = 30,
      cookie = Some ''abc''\<rparr>"

definition world0 :: world where
  "world0 = \<lparr>sent = [], logged = []\<rparr>"

definition example_result :: "unit IndexerQueryResult" where
  "example_result =
     \<lparr>result_title = ''Movie'', result_quality = (),
      download_url = ''magnet:?xt=urn:btih:c12fe1c06bba254a9dc9f519b335aa7c1367a88a''\<rparr>"

definition example_hash :: "unit IndexerQueryResult \<Rightarrow> exn + string" where
  "example_hash r = Inr ''c12fe1c06bba254a9dc9f519b335aa7c1367a88a''"

definition example_torrent :: "unit Torrent" where
  "example_torrent =
     \<lparr>status = unknown, title = ''Movie'', quality = (), imported = False,
      hash = ''c12fe1c06bba254a9dc9f519b335aa7c1367a88a''\<rparr>"

text \<open>
  A login that is answered 200: with a cookie set on a redirect response before it, or with
  cookies on the response itself. \<open>example_policy\<close> is the jar's policy on the example
  service: a cookie of the service's host with path \<open>/\<close> is returned for every URL of it.
\<close>

definition reply_cookies :: "cookie list \<Rightarrow> cookie list \<Rightarrow> exn + http_response" where
  "reply_cookies hops cks =
     Inr \<lparr>status_code = 200, resp_text = ''Ok.'', cookies = cks, history_cookies = hops,
          json = Inl (ValueError ''Expecting value'')\<rparr>"

definition sid_cookie :: cookie where
  "sid_cookie =
     \<lparr>ck_name = ''SID'', ck_value = Some ''abc'', ck_domain = ''decypharr.local'', ck_path = ''/''\<rparr>"

definition other_cookie :: cookie where
  "other_cookie =
     \<lparr>ck_name = ''auth-session'', ck_value = Some ''xyz'', ck_domain = ''decypharr.local'',
      ck_path = ''/''\<rparr>"

definition example_policy :: policy where
  "example_policy ck url = (ck_domain ck = ''decypharr.local'' \<and> ck_path ck = ''/'')"

section \<open>Properties\<close>

subsection \<open>Request dispatch, step by step\<close>

lemma request_cases:
  "request net meth endpoint params data (c, w) =
     (let q = prepare c meth endpoint params data; w1 = w\<lparr>sent := sent w @ [q]\<rparr> in
      case net (sent w) q of
        Inl e \<Rightarrow>
          (case e of
             RequestException m \<Rightarrow>
               (Inl (RuntimeError [Lit ''Decypharr request failed: '', PExn e]), c,
                log_error [Lit ''Decypharr request failed: '', PExn e] w1)
           | _ \<Rightarrow> (Inl e, c, w1))
      | Inr response \<Rightarrow>
          if status_code response = 403 then
            (Inl (RuntimeError [Lit ''Decypharr authentication required or invalid'']), c, w1)
          else if status_code response \<ge> 400 then
            (Inl (RuntimeError [Lit ''Decypharr API error '', PInt (status_code response),
                                Lit '': '', PStr (resp_text response)]), c, w1)
          else (Inr response, c, w1))"
  by (simp add: request_def session_request_def Let_def split: sum.splits)

lemma request_client: "fst (snd (request net meth endpoint params data (c, w))) = c"
  by (simp add: request_cases Let_def split: sum.splits exn.splits)

lemma request_sent:
  "sent (snd (snd (request net meth endpoint params data (c, w)))) =
     sent w @ [prepare c meth endpoint params data]"
  by (simp add: request_cases Let_def log_error_def split: sum.splits exn.splits)

subsection \<open>Status resolution\<close>

lemma dl_set:
  "set DOWNLOADING_STATE =
     {''allocating'', ''downloading'', ''metaDL'', ''pausedDL'', ''queuedDL'', ''stalledDL'',
      ''checkingDL'', ''forcedDL'', ''moving'', ''stoppedDL'', ''forcedMetaDL''}"
  by (simp add: DOWNLOADING_STATE_def)

lemma fin_set:
  "set FINISHED_STATE =
     {''uploading'', ''pausedUP'', ''queuedUP'', ''stalledUP'', ''checkingUP'', ''forcedUP'',
      ''stoppedUP'', ''completed''}"
  by (simp add: FINISHED_STATE_def)

lemma err_set: "set ERROR_STATE = {''missingFiles'', ''error'', ''checkingResumeData''}"
  by (simp add: ERROR_STATE_def)

text \<open>The three tables are pairwise disjoint, so the order of the chain decides nothing.\<close>

lemma fin_not_dl: "l \<in> set FINISHED_STATE \<Longrightarrow> l \<notin> set DOWNLOADING_STATE"
  unfolding FINISHED_STATE_def DOWNLOADING_STATE_def by fastforce

lemma err_not_dl: "l \<in> set ERROR_STATE \<Longrightarrow> l \<notin> set DOWNLOADING_STATE \<and> l \<notin> set FINISHED_STATE"
  unfolding FINISHED_STATE_def DOWNLOADING_STATE_def ERROR_STATE_def by fastforce

lemma map_state_dl:
  "l \<in> set DOWNLOADING_STATE \<Longrightarrow> fst (map_state (JStr l) (c, w)) = Inr downloading"
  by (simp add: map_state_def)

lemma map_state_fin:
  "l \<in> set FINISHED_STATE \<Longrightarrow> fst (map_state (JStr l) (c, w)) = Inr finished"
  using fin_not_dl [of l] by (simp add: map_state_def)

lemma map_state_err:
  "l \<in> set ERROR_STATE \<Longrightarrow> fst (map_state (JStr l) (c, w)) = Inr error"
  using err_not_dl [of l] by (simp add: map_state_def)

lemma map_state_other:
  "l \<notin> set DOWNLOADING_STATE \<Longrightarrow> l \<notin> set FINISHED_STATE \<Longrightarrow> l \<notin> set ERROR_STATE \<Longrightarrow>
   fst (map_state (JStr l) (c, w)) = Inr unknown"
  by (simp add: map_state_def)

lemma map_state_unknown_label: "fst (map_state (JStr ''unknown'') (c, w)) = Inr unknown"
  by (simp add: map_state_def UNKNOWN_STATE_def DOWNLOADING_STATE_def FINISHED_STATE_def
      ERROR_STATE_def)

lemma map_state_returns: "\<exists>st. fst (map_state state (c, w)) = Inr st"
  by (simp add: map_state_def)

lemma map_state_client: "fst (snd (map_state state (c, w))) = c"
  by (simp add: map_state_def)

lemma map_state_sent: "sent (snd (snd (map_state state (c, w)))) = sent w"
  by (simp add: map_state_def log_warning_def)

text \<open>
  C1. Status resolution, the \<open>if\<close>/\<open>elif\<close> chain at the end of \<open>get_torrent_status\<close>, is total
  on state labels: each of the eleven downloading labels resolves to \<open>downloading\<close>, each of
  the eight finished labels to \<open>finished\<close>, each of the three error labels to \<open>error\<close>, and
  the label \<open>unknown\<close> or any label outside the three sets to \<open>unknown\<close>. It returns a status
  for every value in the place of the label (it never raises), it sends no request and it
  leaves the client as it was; its one effect is the warning logged for a label it does not
  know.
\<close>

theorem map_state_total:
  "(l \<in> {''allocating'', ''downloading'', ''metaDL'', ''pausedDL'', ''queuedDL'', ''stalledDL'',
          ''checkingDL'', ''forcedDL'', ''moving'', ''stoppedDL'', ''forcedMetaDL''}
      \<longrightarrow> fst (map_state (JStr l) (c, w)) = Inr downloading) \<and>
   (l \<in> {''uploading'', ''pausedUP'', ''queuedUP'', ''stalledUP'', ''checkingUP'', ''forcedUP'',
          ''stoppedUP'', ''completed''}
      \<longrightarrow> fst (map_state (JStr l) (c, w)) = Inr finished) \<and>
   (l \<in> {''missingFiles'', ''error'', ''checkingResumeData''}
      \<longrightarrow> fst (map_state (JStr l) (c, w)) = Inr error) \<and>
   (l \<notin> {''allocating'', ''downloading'', ''metaDL'', ''pausedDL'', ''queuedDL'', ''stalledDL'',
          ''checkingDL'', ''forcedDL'', ''moving'', ''stoppedDL'', ''forcedMetaDL''} \<union>
         {''uploading'', ''pausedUP'', ''queuedUP'', ''stalledUP'', ''checkingUP'', ''forcedUP'',
          ''stoppedUP'', ''completed''} \<union>
         {''missingFiles'', ''error'', ''checkingResumeData''}
      \<longrightarrow> fst (map_state (JStr l) (c, w)) = Inr unknown) \<and>
   fst (map_state (JStr ''unknown'') (c, w)) = Inr unknown \<and>
   (\<exists>st. fst (map_state state (c, w)) = Inr st) \<and>
   fst (snd (map_state state (c, w))) = c \<and>
   sent (snd (snd (map_state state (c, w)))) = sent w"
  unfolding dl_set [symmetric] fin_set [symmetric] err_set [symmetric] Un_iff
  using map_state_dl [of l c w] map_state_fin [of l c w] map_state_err [of l c w]
    map_state_other [of l c w] map_state_unknown_label [of c w] map_state_returns [of state c w]
    map_state_client [of state c w] map_state_sent [of state c w]
  by blast

theorem map_state_total_witness:
  "fst (map_state (JStr ''stalledDL'') (example_client, world0)) = Inr downloading \<and>
   fst (map_state (JStr ''pausedUP'') (example_client, world0)) = Inr finished \<and>
   fst (map_state (JStr ''missingFiles'') (example_client, world0)) = Inr error \<and>
   fst (map_state (JStr ''seeding'') (example_client, world0)) = Inr unknown"
  using map_state_total [of "''stalledDL''" example_client world0 JNull]
    map_state_total [of "''pausedUP''" example_client world0 JNull]
    map_state_total [of "''missingFiles''" example_client world0 JNull]
    map_state_total [of "''seeding''" example_client world0 JNull]
  by simp

subsection \<open>What the dispatch primitive raises\<close>

lemma request_result:
  "fst (request net meth endpoint params data (c, w)) =
     (case net (sent w) (prepare c meth endpoint params data) of
        Inl e \<Rightarrow>
          (case e of
             RequestException m \<Rightarrow> Inl (RuntimeError [Lit ''Decypharr request failed: '', PExn e])
           | _ \<Rightarrow> Inl e)
      | Inr response \<Rightarrow>
          if status_code response = 403 then
            Inl (RuntimeError [Lit ''Decypharr authentication required or invalid''])
          else if status_code response \<ge> 400 then
            Inl (RuntimeError [Lit ''Decypharr API error '', PInt (status_code response),
                               Lit '': '', PStr (resp_text response)])
          else Inr response)"
  by (simp add: request_cases Let_def split: sum.splits exn.splits)

lemma request_triple:
  "\<exists>res w1. request net meth endpoint params data (c, w) = (res, c, w1) \<and>
     sent w1 = sent w @ [prepare c meth endpoint params data]"
  using request_client [of net meth endpoint params data c w]
    request_sent [of net meth endpoint params data c w]
  by (cases "request net meth endpoint params data (c, w)") auto

lemma fixture_first:
  "scripted (x # xs) [] q = x"
  "scripted [] history q = Inl (RequestException ''Connection refused'')"
  "sent world0 = []"
  by (simp_all add: scripted_def world0_def)

text \<open>
  C4, as the code has it. Every failure the dispatch primitive \<open>_request\<close> produces itself is a
  \<open>RuntimeError\<close>; the three causes are told apart by the message only. A response with
  status 403 raises \<open>RuntimeError("Decypharr authentication required or invalid")\<close>; any other
  response with status 400 or more raises a \<open>RuntimeError\<close> whose message holds the status
  code and the body; a \<open>requests.RequestException\<close> of the transport raises a \<open>RuntimeError\<close>
  whose message holds the text of the cause. The three messages begin with different
  literal texts (they differ within their first eleven characters), whatever is
  interpolated.
\<close>

theorem request_errors:
  "(net (sent w) (prepare c meth endpoint params data) = Inr r \<and> status_code r = 403
      \<longrightarrow> fst (request net meth endpoint params data (c, w)) =
            Inl (RuntimeError [Lit ''Decypharr authentication required or invalid''])) \<and>
   (net (sent w) (prepare c meth endpoint params data) = Inr r \<and> 400 \<le> status_code r \<and>
    status_code r \<noteq> 403
      \<longrightarrow> fst (request net meth endpoint params data (c, w)) =
            Inl (RuntimeError [Lit ''Decypharr API error '', PInt (status_code r), Lit '': '',
                               PStr (resp_text r)])) \<and>
   (net (sent w) (prepare c meth endpoint params data) = Inl (RequestException m)
      \<longrightarrow> fst (request net meth endpoint params data (c, w)) =
            Inl (RuntimeError [Lit ''Decypharr request failed: '', PExn (RequestException m)])) \<and>
   (\<forall>e. fst (request net meth endpoint params data (c, w)) = Inl e \<and>
        net (sent w) (prepare c meth endpoint params data) \<noteq> Inl e
      \<longrightarrow> exn_type e = ''RuntimeError'') \<and>
   take 11 ''Decypharr authentication required or invalid'' \<noteq> take 11 ''Decypharr API error '' \<and>
   take 11 ''Decypharr authentication required or invalid'' \<noteq> take 11 ''Decypharr request failed: '' \<and>
   take 11 ''Decypharr API error '' \<noteq> take 11 ''Decypharr request failed: ''"
  by (auto simp add: request_result split: sum.splits exn.splits if_splits)

theorem request_errors_witness:
  "fst (request (scripted [reply 403 ''Forbidden'']) ''GET'' ''/api/v2/app/version'' None None
          (example_client, world0)) =
     Inl (RuntimeError [Lit ''Decypharr authentication required or invalid'']) \<and>
   fst (request (scripted [reply 500 ''boom'']) ''GET'' ''/api/v2/app/version'' None None
          (example_client, world0)) =
     Inl (RuntimeError [Lit ''Decypharr API error '', PInt 500, Lit '': '', PStr ''boom'']) \<and>
   fst (request (scripted []) ''GET'' ''/api/v2/app/version'' None None (example_client, world0)) =
     Inl (RuntimeError [Lit ''Decypharr request failed: '',
                        PExn (RequestException ''Connection refused'')])"
  using
    request_errors [of "scripted [reply 403 ''Forbidden'']" world0 example_client "''GET''"
      "''/api/v2/app/version''" None None
      "\<lparr>status_code = 403, resp_text = ''Forbidden'', cookies = [],
        history_cookies = [], json = Inl (ValueError ''Expecting value'')\<rparr>"]
    request_errors [of "scripted [reply 500 ''boom'']" world0 example_client "''GET''"
      "''/api/v2/app/version''" None None
      "\<lparr>status_code = 500, resp_text = ''boom'', cookies = [],
        history_cookies = [], json = Inl (ValueError ''Expecting value'')\<rparr>"]
    request_errors [of "scripted []" world0 example_client "''GET''"
      "''/api/v2/app/version''" None None _ "''Connection refused''"]
  by (simp add: fixture_first reply_def)

text \<open>
  C4 as stated fails: the forbidden response, the other error response and the transport
  failure all raise the same exception type.
\<close>

theorem request_error_types_counterexample:
  "map_sum exn_type id
     (fst (request (scripted [reply 403 ''Forbidden'']) ''GET'' ''/api/v2/app/version'' None None
             (example_client, world0))) = Inl ''RuntimeError'' \<and>
   map_sum exn_type id
     (fst (request (scripted [reply 500 ''boom'']) ''GET'' ''/api/v2/app/version'' None None
             (example_client, world0))) = Inl ''RuntimeError'' \<and>
   map_sum exn_type id
     (fst (request (scripted []) ''GET'' ''/api/v2/app/version'' None None
             (example_client, world0))) = Inl ''RuntimeError''"
  by (simp add: request_result fixture_first reply_def)

subsection \<open>Health check\<close>

lemma health_check_cases:
  "health_check net (c, w) =
     (case request net ''GET'' ''/api/v2/app/version'' None None (c, w) of
        (Inr response, c1, w1) \<Rightarrow>
          (Inr True, c1,
           log_info [Lit ''Decypharr health check OK, version: '', PStr (strip (resp_text response))] w1)
      | (Inl e, c1, w1) \<Rightarrow>
          (Inr False, c1, log_error [Lit ''Decypharr health check failed: '', PExn e] w1))"
  by (simp add: health_check_def Let_def split: prod.splits sum.splits)

lemma health_check_result:
  "fst (health_check net (c, w)) =
     (case fst (request net ''GET'' ''/api/v2/app/version'' None None (c, w)) of
        Inr response \<Rightarrow> Inr True
      | Inl e \<Rightarrow> Inr False)"
  by (simp add: health_check_cases split: prod.splits sum.splits)

text \<open>
  C7. The health check never raises: it always returns a boolean. It returns \<open>True\<close> whenever
  the dispatch primitive returns a response, whatever the body, and \<open>False\<close> whenever the
  dispatch primitive raises, and then the last thing logged is the error with the exception.
  In terms of the remote service: \<open>True\<close> exactly when a response with status below 400
  arrives.
\<close>

theorem health_check_never_raises:
  "(\<exists>b. fst (health_check net (c, w)) = Inr b) \<and>
   (\<forall>r. fst (request net ''GET'' ''/api/v2/app/version'' None None (c, w)) = Inr r
      \<longrightarrow> fst (health_check net (c, w)) = Inr True) \<and>
   (\<forall>e. fst (request net ''GET'' ''/api/v2/app/version'' None None (c, w)) = Inl e
      \<longrightarrow> fst (health_check net (c, w)) = Inr False \<and>
          last (logged (snd (snd (health_check net (c, w))))) =
            (ERROR, [Lit ''Decypharr health check failed: '', PExn e])) \<and>
   fst (health_check net (c, w)) =
     Inr (case net (sent w) (prepare c ''GET'' ''/api/v2/app/version'' None None) of
            Inr r \<Rightarrow> status_code r < 400
          | Inl e \<Rightarrow> False)"
proof -
  obtain res c1 w1 where
    rq: "request net ''GET'' ''/api/v2/app/version'' None None (c, w) = (res, c1, w1)"
    by (cases "request net ''GET'' ''/api/v2/app/version'' None None (c, w)") auto
  have res: "res = fst (request net ''GET'' ''/api/v2/app/version'' None None (c, w))"
    by (simp add: rq)
  have returns: "\<exists>b. fst (health_check net (c, w)) = Inr b"
    by (cases res) (auto simp add: health_check_cases rq)
  have healthy: "\<forall>r. res = Inr r \<longrightarrow> fst (health_check net (c, w)) = Inr True"
    by (simp add: health_check_cases rq)
  have failed: "\<forall>e. res = Inl e \<longrightarrow> fst (health_check net (c, w)) = Inr False \<and>
          last (logged (snd (snd (health_check net (c, w))))) =
            (ERROR, [Lit ''Decypharr health check failed: '', PExn e])"
    by (simp add: health_check_cases rq log_error_def)
  have remote: "fst (health_check net (c, w)) =
     Inr (case net (sent w) (prepare c ''GET'' ''/api/v2/app/version'' None None) of
            Inr r \<Rightarrow> status_code r < 400
          | Inl e \<Rightarrow> False)"
    by (simp add: health_check_result request_result split: sum.splits exn.splits)
  show ?thesis using returns healthy failed remote unfolding res by blast
qed

theorem health_check_never_raises_witness:
  "fst (health_check (scripted [reply 200 ''v1.2.3'']) (example_client, world0)) = Inr True \<and>
   fst (health_check (scripted [reply 200 []]) (example_client, world0)) = Inr True \<and>
   fst (health_check (scripted []) (example_client, world0)) = Inr False \<and>
   fst (health_check (scripted [reply 500 ''boom'']) (example_client, world0)) = Inr False"
  using health_check_never_raises [of "scripted [reply 200 ''v1.2.3'']" example_client world0]
    health_check_never_raises [of "scripted [reply 200 []]" example_client world0]
    health_check_never_raises [of "scripted []" example_client world0]
    health_check_never_raises [of "scripted [reply 500 ''boom'']" example_client world0]
  by (simp add: request_result fixture_first reply_def)

subsection \<open>Status query\<close>

lemma get_torrent_status_cases:
  "get_torrent_status net torrent (c, w) =
     (case request net ''GET'' ''/api/v2/torrents/info'' (Some [(''hashes'', Some (hash torrent))]) None (c, w) of
        (Inl e, c1, w1) \<Rightarrow> (Inl e, c1, w1)
      | (Inr response, c1, w1) \<Rightarrow>
          (case json response of
             Inl e \<Rightarrow>
               (case e of
                  ValueError m \<Rightarrow>
                    (Inr unknown, c1,
                     log_error [Lit ''Failed to parse Decypharr response: '', PExn e] w1)
                | _ \<Rightarrow> (Inl e, c1, w1))
           | Inr torrents \<Rightarrow>
               if \<not> jtruthy torrents then
                 (Inr unknown, c1,
                  log_warning [Lit ''No information found for torrent: '', PStr (hash torrent)] w1)
               else
                 (case index0 torrents of
                    Inl e \<Rightarrow> (Inl e, c1, w1)
                  | Inr torrent_info \<Rightarrow>
                      (case dict_get torrent_info ''state'' (JStr ''unknown'') of
                         Inl e \<Rightarrow> (Inl e, c1, w1)
                       | Inr state \<Rightarrow> map_state state (c1, w1)))))"
  by (simp add: get_torrent_status_def Let_def)

lemma map_state_triple:
  "\<exists>st w1. map_state state (c, w) = (Inr st, c, w1) \<and> sent w1 = sent w"
  by (simp add: map_state_def log_warning_def)

lemma get_torrent_status_triple:
  "\<exists>res w1. get_torrent_status net torrent (c, w) = (res, c, w1) \<and>
     sent w1 = sent w @ [prepare c ''GET'' ''/api/v2/torrents/info''
                           (Some [(''hashes'', Some (hash torrent))]) None]"
proof -
  obtain res w1 where
    rq: "request net ''GET'' ''/api/v2/torrents/info'' (Some [(''hashes'', Some (hash torrent))]) None (c, w)
           = (res, c, w1)"
    and s1: "sent w1 = sent w @ [prepare c ''GET'' ''/api/v2/torrents/info''
                           (Some [(''hashes'', Some (hash torrent))]) None]"
    using request_triple by blast
  show ?thesis
  proof (cases res)
    case (Inl e)
    then show ?thesis by (simp add: get_torrent_status_cases rq s1)
  next
    case (Inr response)
    show ?thesis
    proof (cases "json response")
      case (Inl e)
      then show ?thesis using Inr
        by (cases e) (simp_all add: get_torrent_status_cases rq s1 log_error_def)
    next
      case jr: (Inr torrents)
      show ?thesis
      proof (cases "jtruthy torrents")
        case False
        then show ?thesis using Inr jr by (simp add: get_torrent_status_cases rq s1 log_warning_def)
      next
        case True
        show ?thesis
        proof (cases "index0 torrents")
          case (Inl e)
          then show ?thesis using Inr jr True by (simp add: get_torrent_status_cases rq s1)
        next
          case ix: (Inr torrent_info)
          show ?thesis
          proof (cases "dict_get torrent_info ''state'' (JStr ''unknown'')")
            case (Inl e)
            then show ?thesis using Inr jr True ix by (simp add: get_torrent_status_cases rq s1)
          next
            case st: (Inr state)
            obtain s w2 where "map_state state (c, w1) = (Inr s, c, w2)" "sent w2 = sent w1"
              using map_state_triple by blast
            then show ?thesis using Inr jr True ix st by (simp add: get_torrent_status_cases rq s1)
          qed
        qed
      qed
    qed
  qed
qed


lemma get_torrent_status_client: "fst (snd (get_torrent_status net torrent (c, w))) = c"
  using get_torrent_status_triple [of net torrent c w] by auto

lemma get_torrent_status_result:
  "fst (get_torrent_status net torrent (c, w)) =
     (case fst (request net ''GET'' ''/api/v2/torrents/info''
                  (Some [(''hashes'', Some (hash torrent))]) None (c, w)) of
        Inl e \<Rightarrow> Inl e
      | Inr response \<Rightarrow>
          (case json response of
             Inl e \<Rightarrow> (case e of ValueError m \<Rightarrow> Inr unknown | _ \<Rightarrow> Inl e)
           | Inr torrents \<Rightarrow>
               if \<not> jtruthy torrents then Inr unknown
               else
                 (case index0 torrents of
                    Inl e \<Rightarrow> Inl e
                  | Inr torrent_info \<Rightarrow>
                      (case dict_get torrent_info ''state'' (JStr ''unknown'') of
                         Inl e \<Rightarrow> Inl e
                       | Inr state \<Rightarrow> fst (map_state state (c, w))))))"
proof -
  obtain res w1 where
    rq: "request net ''GET'' ''/api/v2/torrents/info'' (Some [(''hashes'', Some (hash torrent))]) None (c, w)
           = (res, c, w1)"
    using request_triple by blast
  have ms: "fst (map_state state (c, w1)) = fst (map_state state (c, w))" for state
    by (simp add: map_state_def)
  show ?thesis
    by (simp add: get_torrent_status_cases rq ms split: sum.splits exn.splits)
qed

text \<open>
  Where the chain of status resolution sits in the query: on a response whose parsed body is
  an array with an object in front, the status is the resolution of that object's \<open>state\<close>,
  or of \<open>unknown\<close> when the object has none.
\<close>

lemma get_torrent_status_resolves:
  assumes "net (sent w) (prepare c ''GET'' ''/api/v2/torrents/info''
                           (Some [(''hashes'', Some (hash torrent))]) None) = Inr r"
    and "status_code r < 400"
    and "json r = Inr (JArr (JObj kvs # rest))"
  shows "fst (get_torrent_status net torrent (c, w)) =
           fst (map_state (case map_of kvs ''state'' of Some state \<Rightarrow> state
                           | None \<Rightarrow> JStr ''unknown'') (c, w))"
  using assms by (simp add: get_torrent_status_result request_result)

text \<open>
  C3, as the code has it. \<open>get_torrent_status\<close> returns \<open>unknown\<close> without raising when the
  dispatch primitive returns a response whose body \<open>response.json()\<close> rejects with a
  \<open>ValueError\<close> (a body that is not JSON), or whose parsed value is empty (falsy, as the
  empty array is). A failure of the dispatch primitive itself (forbidden, error status,
  transport error) is not caught: the exception raised by \<open>_request\<close> leaves
  \<open>get_torrent_status\<close> unchanged. Nor is any other exception of \<open>response.json()\<close>, such as
  the \<open>RecursionError\<close> on a body nested too deep: it leaves \<open>get_torrent_status\<close> as well.
\<close>

theorem get_torrent_status_degrades:
  "(net (sent w) (prepare c ''GET'' ''/api/v2/torrents/info''
                    (Some [(''hashes'', Some (hash torrent))]) None) = Inr r \<and>
    status_code r < 400 \<and> json r = Inl (ValueError m)
      \<longrightarrow> fst (get_torrent_status net torrent (c, w)) = Inr unknown) \<and>
   (net (sent w) (prepare c ''GET'' ''/api/v2/torrents/info''
                    (Some [(''hashes'', Some (hash torrent))]) None) = Inr r \<and>
    status_code r < 400 \<and> json r = Inr torrents \<and> \<not> jtruthy torrents
      \<longrightarrow> fst (get_torrent_status net torrent (c, w)) = Inr unknown) \<and>
   (\<forall>e. fst (request net ''GET'' ''/api/v2/torrents/info''
                (Some [(''hashes'', Some (hash torrent))]) None (c, w)) = Inl e
      \<longrightarrow> fst (get_torrent_status net torrent (c, w)) = Inl e) \<and>
   (\<forall>e. net (sent w) (prepare c ''GET'' ''/api/v2/torrents/info''
                         (Some [(''hashes'', Some (hash torrent))]) None) = Inr r \<and>
        status_code r < 400 \<and> json r = Inl e \<and> (\<forall>m'. e \<noteq> ValueError m')
      \<longrightarrow> fst (get_torrent_status net torrent (c, w)) = Inl e) \<and>
   \<not> jtruthy (JArr [])"
proof -
  have other: "(\<forall>m'. e \<noteq> ValueError m') \<Longrightarrow>
      (case e of ValueError m \<Rightarrow> Inr unknown | _ \<Rightarrow> Inl e) = (Inl e :: exn + TorrentStatus)" for e
    by (cases e) simp_all
  show ?thesis
    by (auto simp add: get_torrent_status_result request_result other)
qed

theorem get_torrent_status_degrades_witness:
  "fst (get_torrent_status (scripted [reply 200 ''<html>'']) example_torrent (example_client, world0))
     = Inr unknown \<and>
   fst (get_torrent_status (scripted [reply_json (JArr [])]) example_torrent (example_client, world0))
     = Inr unknown \<and>
   fst (get_torrent_status (scripted [reply 403 ''Forbidden'']) example_torrent (example_client, world0))
     = Inl (RuntimeError [Lit ''Decypharr authentication required or invalid'']) \<and>
   fst (get_torrent_status
          (scripted [reply_raising (RecursionError ''maximum recursion depth exceeded'')])
          example_torrent (example_client, world0))
     = Inl (RecursionError ''maximum recursion depth exceeded'')"
  using
    get_torrent_status_degrades [of "scripted [reply 200 ''<html>'']" world0 example_client
      example_torrent
      "\<lparr>status_code = 200, resp_text = ''<html>'', cookies = [],
        history_cookies = [], json = Inl (ValueError ''Expecting value'')\<rparr>"
      "''Expecting value''" JNull]
    get_torrent_status_degrades [of "scripted [reply_json (JArr [])]" world0 example_client
      example_torrent
      "\<lparr>status_code = 200, resp_text = [], cookies = [],
        history_cookies = [], json = Inr (JArr [])\<rparr>"
      "[]" "JArr []"]
    get_torrent_status_degrades [of "scripted [reply 403 ''Forbidden'']" world0 example_client
      example_torrent]
    get_torrent_status_degrades [of
      "scripted [reply_raising (RecursionError ''maximum recursion depth exceeded'')]" world0
      example_client example_torrent
      "\<lparr>status_code = 200, resp_text = [], cookies = [], history_cookies = [],
        json = Inl (RecursionError ''maximum recursion depth exceeded'')\<rparr>"]
  by (simp add: request_result fixture_first reply_def reply_json_def reply_raising_def)

text \<open>
  C3 as stated fails: with the connection refused, or with a response of status 500, the
  status query raises instead of returning \<open>unknown\<close>.
\<close>

theorem get_torrent_status_raises_counterexample:
  "fst (get_torrent_status (scripted []) example_torrent (example_client, world0)) =
     Inl (RuntimeError [Lit ''Decypharr request failed: '',
                        PExn (RequestException ''Connection refused'')]) \<and>
   fst (get_torrent_status (scripted [reply 500 ''boom'']) example_torrent (example_client, world0)) =
     Inl (RuntimeError [Lit ''Decypharr API error '', PInt 500, Lit '': '', PStr ''boom''])"
  by (simp add: get_torrent_status_result request_result fixture_first reply_def)

subsection \<open>Submission\<close>

lemma sent_log:
  "sent (log_info m w) = sent w" "sent (log_warning m w) = sent w" "sent (log_error m w) = sent w"
  by (simp_all add: log_info_def log_warning_def log_error_def)

lemma download_torrent_cases:
  "download_torrent net get_torrent_hash r (c, w) =
     (case get_torrent_hash r of
        Inl e \<Rightarrow> (Inl e, c, log_info [Lit ''Adding torrent to Decypharr: '', PStr (result_title r)] w)
      | Inr h \<Rightarrow>
          (case request net ''POST'' ''/api/v2/torrents/add'' None (Some (add_data (config c) r))
                  (c, log_info [Lit ''Adding torrent to Decypharr: '', PStr (result_title r)] w) of
             (Inl e, c1, w1) \<Rightarrow> (Inl e, c1, w1)
           | (Inr response, c1, w1) \<Rightarrow>
               if strip (resp_text response) \<noteq> ''Ok.'' then
                 (Inl (RuntimeError [Lit ''Failed to add torrent to Decypharr: '',
                                     PStr (strip (resp_text response))]), c1,
                  log_error [Lit ''Failed to add torrent to Decypharr: '',
                             PStr (strip (resp_text response))] w1)
               else
                 (case get_torrent_status net
                         \<lparr>status = unknown, title = result_title r, quality = result_quality r,
                          imported = False, hash = h\<rparr>
                         (c1, log_info [Lit ''Successfully added torrent to Decypharr: '', PStr h] w1) of
                    (Inr st, c2, w3) \<Rightarrow>
                      (Inr \<lparr>status = st, title = result_title r, quality = result_quality r,
                            imported = False, hash = h\<rparr>, c2, w3)
                  | (Inl e, c2, w3) \<Rightarrow>
                      (Inr \<lparr>status = unknown, title = result_title r, quality = result_quality r,
                            imported = False, hash = h\<rparr>, c2,
                       log_warning [Lit ''Could not get initial status: '', PExn e] w3))))"
  by (simp add: download_torrent_def Let_def split: sum.splits prod.splits)

lemma download_torrent_result:
  assumes "get_torrent_hash r = Inr h"
  shows "fst (download_torrent net get_torrent_hash r (c, w)) =
     (case fst (request net ''POST'' ''/api/v2/torrents/add'' None (Some (add_data (config c) r))
                  (c, log_info [Lit ''Adding torrent to Decypharr: '', PStr (result_title r)] w)) of
        Inl e \<Rightarrow> Inl e
      | Inr response \<Rightarrow>
          if strip (resp_text response) \<noteq> ''Ok.'' then
            Inl (RuntimeError [Lit ''Failed to add torrent to Decypharr: '',
                               PStr (strip (resp_text response))])
          else
            Inr \<lparr>status =
                   (case fst (get_torrent_status net
                          \<lparr>status = unknown, title = result_title r, quality = result_quality r,
                           imported = False, hash = h\<rparr>
                          (c, log_info [Lit ''Successfully added torrent to Decypharr: '', PStr h]
                              (snd (snd (request net ''POST'' ''/api/v2/torrents/add'' None
                                 (Some (add_data (config c) r))
                                 (c, log_info [Lit ''Adding torrent to Decypharr: '',
                                               PStr (result_title r)] w)))))) of
                      Inr st \<Rightarrow> st
                    | Inl e \<Rightarrow> unknown),
                 title = result_title r, quality = result_quality r, imported = False, hash = h\<rparr>)"
proof -
  obtain res w1 where
    rq: "request net ''POST'' ''/api/v2/torrents/add'' None (Some (add_data (config c) r))
           (c, log_info [Lit ''Adding torrent to Decypharr: '', PStr (result_title r)] w) = (res, c, w1)"
    using request_triple by blast
  obtain res2 w3 where
    gs: "get_torrent_status net
                \<lparr>status = unknown, title = result_title r, quality = result_quality r,
                 imported = False, hash = h\<rparr>
                (c, log_info [Lit ''Successfully added torrent to Decypharr: '', PStr h] w1) = (res2, c, w3)"
    using get_torrent_status_triple by blast
  show ?thesis
    using assms by (simp add: download_torrent_cases rq gs split: sum.splits)
qed

lemma strip_ok: "strip ''Ok.'' = ''Ok.''"
  by (simp add: strip_def py_isspace_def)

lemma get_torrent_status_world:
  "sent w = sent w' \<Longrightarrow>
   fst (get_torrent_status net torrent (c, w)) = fst (get_torrent_status net torrent (c, w'))"
  by (simp add: get_torrent_status_result request_result map_state_def
      split: sum.splits exn.splits)

lemma download_torrent_last_log:
  assumes "get_torrent_hash r = Inr h"
    and "fst (request net ''POST'' ''/api/v2/torrents/add'' None (Some (add_data (config c) r))
           (c, log_info [Lit ''Adding torrent to Decypharr: '', PStr (result_title r)] w)) = Inr response"
    and "strip (resp_text response) = ''Ok.''"
    and "fst (get_torrent_status net
                \<lparr>status = unknown, title = result_title r, quality = result_quality r,
                 imported = False, hash = h\<rparr>
                (c, log_info [Lit ''Successfully added torrent to Decypharr: '', PStr h]
                      (snd (snd (request net ''POST'' ''/api/v2/torrents/add'' None
                                 (Some (add_data (config c) r))
                                 (c, log_info [Lit ''Adding torrent to Decypharr: '',
                                               PStr (result_title r)] w)))))) = Inl e"
  shows "last (logged (snd (snd (download_torrent net get_torrent_hash r (c, w))))) =
           (WARNING, [Lit ''Could not get initial status: '', PExn e])"
proof -
  obtain res w1 where
    rq: "request net ''POST'' ''/api/v2/torrents/add'' None (Some (add_data (config c) r))
           (c, log_info [Lit ''Adding torrent to Decypharr: '', PStr (result_title r)] w) = (res, c, w1)"
    using request_triple by blast
  obtain res2 w3 where
    gs: "get_torrent_status net
                \<lparr>status = unknown, title = result_title r, quality = result_quality r,
                 imported = False, hash = h\<rparr>
                (c, log_info [Lit ''Successfully added torrent to Decypharr: '', PStr h] w1) = (res2, c, w3)"
    using get_torrent_status_triple by blast
  show ?thesis
    using assms by (simp add: download_torrent_cases rq gs log_warning_def)
qed

lemma fixture_second:
  "scripted [x] [q1] q = Inl (RequestException ''Connection refused'')"
  "scripted (x # y # ys) [q1] q = y"
  by (simp_all add: scripted_def)

lemma example_result_fields:
  "result_title example_result = ''Movie''" "result_quality example_result = ()"
  by (simp_all add: example_result_def)

lemma example_hash_result:
  "example_hash example_result = Inr ''c12fe1c06bba254a9dc9f519b335aa7c1367a88a''"
  by (simp add: example_hash_def)

lemmas download_example =
  download_torrent_result [of example_hash example_result
    "''c12fe1c06bba254a9dc9f519b335aa7c1367a88a''", OF example_hash_result]

text \<open>
  C2, as the code has it. Take a submission whose identifier was derived and that the dispatch
  primitive answers with a response (status below 400). The code compares the body after
  \<open>strip()\<close>, not the raw body: when the body without its leading and trailing whitespace is
  \<open>Ok.\<close>, \<open>download_torrent\<close> returns a record with the identifier, title and quality of the
  submission; when it is anything else, \<open>download_torrent\<close> raises a \<open>RuntimeError\<close> whose
  message holds the stripped body, and returns no record. In particular the raw body \<open>Ok.\<close>
  gives a record.
\<close>

theorem download_torrent_acknowledged:
  assumes "get_torrent_hash r = Inr h"
    and "net (sent w) (prepare c ''POST'' ''/api/v2/torrents/add'' None
                         (Some (add_data (config c) r))) = Inr response"
    and "status_code response < 400"
  shows "(strip (resp_text response) = ''Ok.''
            \<longrightarrow> (\<exists>st. fst (download_torrent net get_torrent_hash r (c, w)) =
                   Inr \<lparr>status = st, title = result_title r, quality = result_quality r,
                        imported = False, hash = h\<rparr>)) \<and>
         (strip (resp_text response) \<noteq> ''Ok.''
            \<longrightarrow> fst (download_torrent net get_torrent_hash r (c, w)) =
                  Inl (RuntimeError [Lit ''Failed to add torrent to Decypharr: '',
                                     PStr (strip (resp_text response))])) \<and>
         (resp_text response = ''Ok.''
            \<longrightarrow> (\<exists>t. fst (download_torrent net get_torrent_hash r (c, w)) = Inr t \<and> hash t = h))"
  using assms download_torrent_result [of get_torrent_hash r h net c w]
  by (simp add: request_result sent_log strip_ok)

theorem download_torrent_acknowledged_witness:
  "fst (download_torrent (scripted [reply 200 ''Ok.'', reply_json (JArr [])]) example_hash
          example_result (example_client, world0)) = Inr example_torrent \<and>
   fst (download_torrent (scripted [reply 200 ''Fails.'']) example_hash example_result
          (example_client, world0)) =
     Inl (RuntimeError [Lit ''Failed to add torrent to Decypharr: '', PStr ''Fails.''])"
  using download_torrent_acknowledged [of example_hash example_result
      "''c12fe1c06bba254a9dc9f519b335aa7c1367a88a''" "scripted [reply 200 ''Fails.'']" world0
      example_client
      "\<lparr>status_code = 200, resp_text = ''Fails.'', cookies = [],
        history_cookies = [], json = Inl (ValueError ''Expecting value'')\<rparr>"]
   download_torrent_acknowledged [of example_hash example_result
      "''c12fe1c06bba254a9dc9f519b335aa7c1367a88a''"
      "scripted [reply 200 ''Ok.'', reply_json (JArr [])]" world0
      example_client
      "\<lparr>status_code = 200, resp_text = ''Ok.'', cookies = [],
        history_cookies = [], json = Inl (ValueError ''Expecting value'')\<rparr>"]
  by (simp add: example_hash_def example_result_fields example_torrent_def fixture_first
      fixture_second reply_def reply_json_def strip_def py_isspace_def download_example
      get_torrent_status_result request_result request_sent sent_log)

text \<open>
  C2 as stated fails: the body \<open>Ok.\<close> followed by a newline is not the literal \<open>Ok.\<close>, and the
  submission still returns a record.
\<close>

theorem download_torrent_strips_counterexample:
  "''Ok.'' @ [CHR 0x0A] \<noteq> ''Ok.'' \<and>
   fst (download_torrent (scripted [reply 200 (''Ok.'' @ [CHR 0x0A]), reply_json (JArr [])])
          example_hash example_result (example_client, world0)) = Inr example_torrent"
  by (simp add: example_result_fields example_torrent_def fixture_first
      fixture_second reply_def reply_json_def strip_def py_isspace_def download_example
      get_torrent_status_result request_result request_sent sent_log)

text \<open>
  C6. For every acknowledged submission, when the status query that follows it raises an
  exception \<open>e\<close>, whatever \<open>e\<close> is, \<open>download_torrent\<close> still returns the synthesized record
  with status \<open>unknown\<close>, and the last thing logged is the warning with \<open>e\<close>. The status
  query is the one run after the submission request has been sent.
\<close>

theorem download_torrent_status_failure:
  assumes "get_torrent_hash r = Inr h"
    and "net (sent w) (prepare c ''POST'' ''/api/v2/torrents/add'' None
                         (Some (add_data (config c) r))) = Inr response"
    and "status_code response < 400"
    and "strip (resp_text response) = ''Ok.''"
    and "fst (get_torrent_status net
                \<lparr>status = unknown, title = result_title r, quality = result_quality r,
                 imported = False, hash = h\<rparr>
                (c, w\<lparr>sent := sent w @ [prepare c ''POST'' ''/api/v2/torrents/add'' None
                                              (Some (add_data (config c) r))]\<rparr>)) = Inl e"
  shows "fst (download_torrent net get_torrent_hash r (c, w)) =
           Inr \<lparr>status = unknown, title = result_title r, quality = result_quality r,
                imported = False, hash = h\<rparr> \<and>
         last (logged (snd (snd (download_torrent net get_torrent_hash r (c, w))))) =
           (WARNING, [Lit ''Could not get initial status: '', PExn e])"
proof -
  let ?w0 = "log_info [Lit ''Adding torrent to Decypharr: '', PStr (result_title r)] w"
  let ?rq = "request net ''POST'' ''/api/v2/torrents/add'' None (Some (add_data (config c) r)) (c, ?w0)"
  let ?t = "\<lparr>status = unknown, title = result_title r, quality = result_quality r,
                 imported = False, hash = h\<rparr>"
  have ok: "fst ?rq = Inr response"
    using assms(2,3) by (simp add: request_result sent_log)
  have "sent (log_info [Lit ''Successfully added torrent to Decypharr: '', PStr h] (snd (snd ?rq))) =
        sent (w\<lparr>sent := sent w @ [prepare c ''POST'' ''/api/v2/torrents/add'' None
                                              (Some (add_data (config c) r))]\<rparr>)"
    by (simp add: sent_log request_sent)
  from get_torrent_status_world [OF this, of net ?t c] assms(5)
  have fails: "fst (get_torrent_status net ?t
          (c, log_info [Lit ''Successfully added torrent to Decypharr: '', PStr h] (snd (snd ?rq)))) = Inl e"
    by simp
  have "fst (download_torrent net get_torrent_hash r (c, w)) = Inr ?t"
    using download_torrent_result [of get_torrent_hash r h net c w] assms(1,4) ok fails by simp
  moreover have "last (logged (snd (snd (download_torrent net get_torrent_hash r (c, w))))) =
           (WARNING, [Lit ''Could not get initial status: '', PExn e])"
    using download_torrent_last_log [of get_torrent_hash r h net c w response e] assms(1,4) ok fails
    by blast
  ultimately show ?thesis by simp
qed

theorem download_torrent_status_failure_witness:
  "fst (download_torrent (scripted [reply 200 ''Ok.'']) example_hash example_result
          (example_client, world0)) = Inr example_torrent \<and>
   last (logged (snd (snd (download_torrent (scripted [reply 200 ''Ok.'']) example_hash
          example_result (example_client, world0))))) =
     (WARNING, [Lit ''Could not get initial status: '',
                PExn (RuntimeError [Lit ''Decypharr request failed: '',
                                    PExn (RequestException ''Connection refused'')])])"
  using download_torrent_status_failure [of example_hash example_result
      "''c12fe1c06bba254a9dc9f519b335aa7c1367a88a''" "scripted [reply 200 ''Ok.'']" world0
      example_client
      "\<lparr>status_code = 200, resp_text = ''Ok.'', cookies = [],
        history_cookies = [], json = Inl (ValueError ''Expecting value'')\<rparr>"
      "RuntimeError [Lit ''Decypharr request failed: '',
                                    PExn (RequestException ''Connection refused'')]"]
  by (simp add: example_hash_def example_result_def example_torrent_def fixture_first fixture_second
      reply_def strip_ok get_torrent_status_result request_result)

subsection \<open>What the operations send, and what they leave alone\<close>

lemma prepare_cookies:
  "req_cookies (prepare c meth endpoint params data) =
     (if truthy (cookie c) then Some [(''SID'', cookie c)] else None)"
  by (simp add: prepare_def Let_def)

lemma request_effect:
  "\<exists>res w1 qs. request net meth endpoint params data (c, w) = (res, c, w1) \<and>
     sent w1 = sent w @ qs \<and>
     (\<forall>q\<in>set qs. req_cookies q = (if truthy (cookie c) then Some [(''SID'', cookie c)] else None))"
  using request_triple [of net meth endpoint params data c w] prepare_cookies by fastforce

lemma get_torrent_status_effect:
  "\<exists>res w1 qs. get_torrent_status net torrent (c, w) = (res, c, w1) \<and>
     sent w1 = sent w @ qs \<and>
     (\<forall>q\<in>set qs. req_cookies q = (if truthy (cookie c) then Some [(''SID'', cookie c)] else None))"
  using get_torrent_status_triple [of net torrent c w] prepare_cookies by fastforce

lemma download_torrent_effect:
  "\<exists>res w1 qs. download_torrent net get_torrent_hash r (c, w) = (res, c, w1) \<and>
     sent w1 = sent w @ qs \<and>
     (\<forall>q\<in>set qs. req_cookies q = (if truthy (cookie c) then Some [(''SID'', cookie c)] else None))"
proof (cases "get_torrent_hash r")
  case (Inl e)
  then show ?thesis by (simp add: download_torrent_cases sent_log)
next
  case (Inr h)
  obtain res w1 qs where
    rq: "request net ''POST'' ''/api/v2/torrents/add'' None (Some (add_data (config c) r))
           (c, log_info [Lit ''Adding torrent to Decypharr: '', PStr (result_title r)] w) = (res, c, w1)"
    and s1: "sent w1 = sent w @ qs"
    and c1: "\<forall>q\<in>set qs. req_cookies q = (if truthy (cookie c) then Some [(''SID'', cookie c)] else None)"
    using request_effect [of net "''POST''" "''/api/v2/torrents/add''" None
        "Some (add_data (config c) r)" c
        "log_info [Lit ''Adding torrent to Decypharr: '', PStr (result_title r)] w"]
    by (auto simp add: sent_log)
  obtain res2 w3 qs2 where
    gs: "get_torrent_status net
                \<lparr>status = unknown, title = result_title r, quality = result_quality r,
                 imported = False, hash = h\<rparr>
                (c, log_info [Lit ''Successfully added torrent to Decypharr: '', PStr h] w1) = (res2, c, w3)"
    and s3: "sent w3 = sent w1 @ qs2"
    and c3: "\<forall>q\<in>set qs2. req_cookies q = (if truthy (cookie c) then Some [(''SID'', cookie c)] else None)"
    using get_torrent_status_effect [of net
        "\<lparr>status = unknown, title = result_title r, quality = result_quality r,
          imported = False, hash = h\<rparr>" c
        "log_info [Lit ''Successfully added torrent to Decypharr: '', PStr h] w1"]
    by (auto simp add: sent_log)
  have both: "\<forall>q\<in>set (qs @ qs2). req_cookies q = (if truthy (cookie c) then Some [(''SID'', cookie c)] else None)"
    using c1 c3 by auto
  have s13: "sent w3 = sent w @ (qs @ qs2)"
    using s1 s3 by simp
  show ?thesis
  proof (cases res)
    case (Inl e)
    then show ?thesis using Inr s1 c1 by (simp add: download_torrent_cases rq)
  next
    case ok: (Inr response)
    show ?thesis
    proof (cases "strip (resp_text response) = ''Ok.''")
      case False
      then show ?thesis using Inr ok s1 c1 by (simp add: download_torrent_cases rq sent_log)
    next
      case True
      show ?thesis
        using Inr ok True s13 both
        by (cases res2) (auto simp add: download_torrent_cases rq gs sent_log simp del: set_append)
    qed
  qed
qed

lemma remove_torrent_effect:
  "\<exists>res w1 qs. remove_torrent net torrent delete_data (c, w) = (res, c, w1) \<and>
     sent w1 = sent w @ qs \<and>
     (\<forall>q\<in>set qs. req_cookies q = (if truthy (cookie c) then Some [(''SID'', cookie c)] else None))"
proof -
  obtain res w1 qs where
    "request net ''POST'' ''/api/v2/torrents/delete'' None
       (Some [(''hashes'', Some (hash torrent)),
              (''deleteFiles'', Some (if delete_data then ''true'' else ''false''))])
       (c, log_info [Lit ''Removing torrent from Decypharr: '', PStr (title torrent)] w) = (res, c, w1)"
    "sent w1 = sent w @ qs"
    "\<forall>q\<in>set qs. req_cookies q = (if truthy (cookie c) then Some [(''SID'', cookie c)] else None)"
    using request_effect [of net "''POST''" "''/api/v2/torrents/delete''" None
        "Some [(''hashes'', Some (hash torrent)),
              (''deleteFiles'', Some (if delete_data then ''true'' else ''false''))]" c
        "log_info [Lit ''Removing torrent from Decypharr: '', PStr (title torrent)] w"]
    by (auto simp add: sent_log)
  then show ?thesis
    by (cases res) (auto simp add: remove_torrent_def Let_def sent_log)
qed

lemma pause_torrent_effect:
  "\<exists>res w1 qs. pause_torrent net torrent (c, w) = (res, c, w1) \<and>
     sent w1 = sent w @ qs \<and>
     (\<forall>q\<in>set qs. req_cookies q = (if truthy (cookie c) then Some [(''SID'', cookie c)] else None))"
proof -
  obtain res w1 qs where
    "request net ''POST'' ''/api/v2/torrents/pause'' None (Some [(''hashes'', Some (hash torrent))])
       (c, log_info [Lit ''Pausing torrent: '', PStr (title torrent)] w) = (res, c, w1)"
    "sent w1 = sent w @ qs"
    "\<forall>q\<in>set qs. req_cookies q = (if truthy (cookie c) then Some [(''SID'', cookie c)] else None)"
    using request_effect [of net "''POST''" "''/api/v2/torrents/pause''" None
        "Some [(''hashes'', Some (hash torrent))]" c
        "log_info [Lit ''Pausing torrent: '', PStr (title torrent)] w"]
    by (auto simp add: sent_log)
  then show ?thesis
    by (cases res) (auto simp add: pause_torrent_def Let_def sent_log)
qed

lemma resume_torrent_effect:
  "\<exists>res w1 qs. resume_torrent net torrent (c, w) = (res, c, w1) \<and>
     sent w1 = sent w @ qs \<and>
     (\<forall>q\<in>set qs. req_cookies q = (if truthy (cookie c) then Some [(''SID'', cookie c)] else None))"
proof -
  obtain res w1 qs where
    "request net ''POST'' ''/api/v2/torrents/resume'' None (Some [(''hashes'', Some (hash torrent))])
       (c, log_info [Lit ''Resuming torrent: '', PStr (title torrent)] w) = (res, c, w1)"
    "sent w1 = sent w @ qs"
    "\<forall>q\<in>set qs. req_cookies q = (if truthy (cookie c) then Some [(''SID'', cookie c)] else None)"
    using request_effect [of net "''POST''" "''/api/v2/torrents/resume''" None
        "Some [(''hashes'', Some (hash torrent))]" c
        "log_info [Lit ''Resuming torrent: '', PStr (title torrent)] w"]
    by (auto simp add: sent_log)
  then show ?thesis
    by (cases res) (auto simp add: resume_torrent_def Let_def sent_log)
qed

lemma get_torrent_files_effect:
  "\<exists>res w1 qs. get_torrent_files net torrent (c, w) = (res, c, w1) \<and>
     sent w1 = sent w @ qs \<and>
     (\<forall>q\<in>set qs. req_cookies q = (if truthy (cookie c) then Some [(''SID'', cookie c)] else None))"
proof -
  obtain res w1 qs where
    rq: "request net ''GET'' ''/api/v2/torrents/files'' (Some [(''hash'', Some (hash torrent))]) None (c, w)
       = (res, c, w1)"
    "sent w1 = sent w @ qs"
    "\<forall>q\<in>set qs. req_cookies q = (if truthy (cookie c) then Some [(''SID'', cookie c)] else None)"
    using request_effect [of net "''GET''" "''/api/v2/torrents/files''"
        "Some [(''hash'', Some (hash torrent))]" None c w]
    by auto
  show ?thesis
  proof (cases res)
    case (Inl e)
    then show ?thesis using rq by (auto simp add: get_torrent_files_def)
  next
    case (Inr response)
    show ?thesis
    proof (cases "json response")
      case failed: (Inl e)
      then show ?thesis using Inr rq
        by (cases e) (auto simp add: get_torrent_files_def sent_log)
    next
      case (Inr files)
      then show ?thesis using \<open>res = Inr response\<close> rq
        by (auto simp add: get_torrent_files_def)
    qed
  qed
qed

lemma health_check_effect:
  "\<exists>res w1 qs. health_check net (c, w) = (res, c, w1) \<and>
     sent w1 = sent w @ qs \<and>
     (\<forall>q\<in>set qs. req_cookies q = (if truthy (cookie c) then Some [(''SID'', cookie c)] else None))"
proof -
  obtain res w1 qs where
    rq: "request net ''GET'' ''/api/v2/app/version'' None None (c, w) = (res, c, w1)"
    "sent w1 = sent w @ qs"
    "\<forall>q\<in>set qs. req_cookies q = (if truthy (cookie c) then Some [(''SID'', cookie c)] else None)"
    using request_effect [of net "''GET''" "''/api/v2/app/version''" None None c w]
    by auto
  then show ?thesis
    by (cases res) (auto simp add: health_check_cases sent_log)
qed

text \<open>
  C9. Every lifecycle operation (submit, cancel, pause, resume, status query, list-files,
  health-check) returns the client it was given: base endpoint, session token, timeout and
  configuration are the same after the call as before, whatever the remote service answers
  and whether the operation returns or raises. The client has no other attribute, so it
  keeps nothing of the remote lifecycle state between calls.
\<close>

theorem client_unchanged:
  "fst (snd (download_torrent net get_torrent_hash r (c, w))) = c \<and>
   fst (snd (remove_torrent net torrent delete_data (c, w))) = c \<and>
   fst (snd (pause_torrent net torrent (c, w))) = c \<and>
   fst (snd (resume_torrent net torrent (c, w))) = c \<and>
   fst (snd (get_torrent_status net torrent (c, w))) = c \<and>
   fst (snd (get_torrent_files net torrent (c, w))) = c \<and>
   fst (snd (health_check net (c, w))) = c"
proof -
  have "fst (snd (download_torrent net get_torrent_hash r (c, w))) = c"
    using download_torrent_effect [of net get_torrent_hash r c w] by auto
  moreover have "fst (snd (remove_torrent net torrent delete_data (c, w))) = c"
    using remove_torrent_effect [of net torrent delete_data c w] by auto
  moreover have "fst (snd (pause_torrent net torrent (c, w))) = c"
    using pause_torrent_effect [of net torrent c w] by auto
  moreover have "fst (snd (resume_torrent net torrent (c, w))) = c"
    using resume_torrent_effect [of net torrent c w] by auto
  moreover have "fst (snd (get_torrent_files net torrent (c, w))) = c"
    using get_torrent_files_effect [of net torrent c w] by auto
  moreover have "fst (snd (health_check net (c, w))) = c"
    using health_check_effect [of net c w] by auto
  ultimately show ?thesis
    by (simp add: get_torrent_status_client)
qed

lemma download_torrent_first_request:
  assumes "get_torrent_hash r = Inr h"
  shows "\<exists>qs. sent (snd (snd (download_torrent net get_torrent_hash r (c, w)))) =
           sent w @ prepare c ''POST'' ''/api/v2/torrents/add'' None (Some (add_data (config c) r)) # qs"
proof -
  obtain res w1 where
    rq: "request net ''POST'' ''/api/v2/torrents/add'' None (Some (add_data (config c) r))
           (c, log_info [Lit ''Adding torrent to Decypharr: '', PStr (result_title r)] w) = (res, c, w1)"
    and s1: "sent w1 = sent w @ [prepare c ''POST'' ''/api/v2/torrents/add'' None
                                   (Some (add_data (config c) r))]"
    using request_triple [of net "''POST''" "''/api/v2/torrents/add''" None
        "Some (add_data (config c) r)" c
        "log_info [Lit ''Adding torrent to Decypharr: '', PStr (result_title r)] w"]
    by (auto simp add: sent_log)
  obtain res2 w3 where
    gs: "get_torrent_status net
                \<lparr>status = unknown, title = result_title r, quality = result_quality r,
                 imported = False, hash = h\<rparr>
                (c, log_info [Lit ''Successfully added torrent to Decypharr: '', PStr h] w1) = (res2, c, w3)"
    and s3: "sent w3 = sent w1 @ [prepare c ''GET'' ''/api/v2/torrents/info''
                           (Some [(''hashes'', Some h)]) None]"
    using get_torrent_status_triple [of net
        "\<lparr>status = unknown, title = result_title r, quality = result_quality r,
          imported = False, hash = h\<rparr>" c
        "log_info [Lit ''Successfully added torrent to Decypharr: '', PStr h] w1"]
    by (auto simp add: sent_log)
  show ?thesis
    using assms s1 s3
    by (cases res; cases res2) (auto simp add: download_torrent_cases rq gs sent_log)
qed

text \<open>
  C8. For every submission (the identifier having been derived), the first request sent is
  a POST to \<open>torrents/add\<close> whose form holds the source locator under \<open>urls\<close> and a category
  that is the configured category name, or \<open>movies\<close> when the configured name is unset
  (\<open>None\<close> or empty); the form has a \<open>savepath\<close> field if and only if the configured save path
  is non-empty, and then it is the configured save path.
\<close>

theorem submission_form:
  assumes "get_torrent_hash r = Inr h"
  shows "\<exists>q qs data.
           sent (snd (snd (download_torrent net get_torrent_hash r (c, w)))) = sent w @ q # qs \<and>
           req_method q = ''POST'' \<and> req_url q = base_url c @ ''/api/v2/torrents/add'' \<and>
           req_data q = Some data \<and>
           map_of data ''urls'' = Some (Some (download_url r)) \<and>
           (\<forall>name. category_name (config c) = Some name \<and> name \<noteq> []
              \<longrightarrow> map_of data ''category'' = Some (Some name)) \<and>
           (category_name (config c) = None \<or> category_name (config c) = Some []
              \<longrightarrow> map_of data ''category'' = Some (Some ''movies'')) \<and>
           (''savepath'' \<in> fst ` set data \<longleftrightarrow>
              category_save_path (config c) \<noteq> None \<and> category_save_path (config c) \<noteq> Some []) \<and>
           (''savepath'' \<in> fst ` set data
              \<longrightarrow> map_of data ''savepath'' = Some (category_save_path (config c)))"
proof -
  let ?data = "add_data (config c) r"
  let ?q = "prepare c ''POST'' ''/api/v2/torrents/add'' None (Some ?data)"
  obtain qs where
    "sent (snd (snd (download_torrent net get_torrent_hash r (c, w)))) = sent w @ ?q # qs"
    using download_torrent_first_request [of get_torrent_hash r h net c w] assms by blast
  moreover have "req_method ?q = ''POST''" "req_url ?q = base_url c @ ''/api/v2/torrents/add''"
    "req_data ?q = Some ?data"
    by (simp_all add: prepare_def Let_def)
  moreover have "map_of ?data ''urls'' = Some (Some (download_url r))"
    by (simp add: add_data_def Let_def)
  moreover have "\<forall>name. category_name (config c) = Some name \<and> name \<noteq> []
              \<longrightarrow> map_of ?data ''category'' = Some (Some name)"
    by (simp add: add_data_def Let_def)
  moreover have "category_name (config c) = None \<or> category_name (config c) = Some []
              \<longrightarrow> map_of ?data ''category'' = Some (Some ''movies'')"
    by (auto simp add: add_data_def Let_def)
  moreover have "''savepath'' \<in> fst ` set ?data \<longleftrightarrow>
              category_save_path (config c) \<noteq> None \<and> category_save_path (config c) \<noteq> Some []"
    by (cases "category_save_path (config c)") (auto simp add: add_data_def Let_def)
  moreover have "''savepath'' \<in> fst ` set ?data
              \<longrightarrow> map_of ?data ''savepath'' = Some (category_save_path (config c))"
    by (cases "category_save_path (config c)") (auto simp add: add_data_def Let_def)
  ultimately show ?thesis by blast
qed

theorem submission_form_witness:
  "\<exists>q qs data.
     sent (snd (snd (download_torrent (scripted []) example_hash example_result
                       (example_client, world0)))) = q # qs \<and>
     req_method q = ''POST'' \<and> req_url q = ''http://decypharr:8282/api/v2/torrents/add'' \<and>
     req_data q = Some data \<and>
     map_of data ''urls'' =
       Some (Some ''magnet:?xt=urn:btih:c12fe1c06bba254a9dc9f519b335aa7c1367a88a'') \<and>
     map_of data ''category'' = Some (Some ''MediaManager'') \<and>
     ''savepath'' \<notin> fst ` set data"
  using submission_form [of example_hash example_result
      "''c12fe1c06bba254a9dc9f519b335aa7c1367a88a''" "scripted []" example_client world0]
  by (simp add: example_hash_def example_client_def example_config_def example_result_def
      fixture_first) blast

subsection \<open>Construction\<close>

lemma authenticate_forbidden:
  assumes "net (sent w) (login_request c) = Inr response" and "status_code response = 403"
  shows "authenticate net (c, w) =
           (Inl (RuntimeError [Lit ''Invalid Decypharr username or password'']), c,
            w\<lparr>sent := sent w @ [login_request c]\<rparr>)"
  using assms by (simp add: authenticate_def authenticate_body_def session_request_def)

lemma no_sid_cookie:
  "filter (\<lambda>ck. ck_name ck = ''SID'') jar = [] \<Longrightarrow> \<not> cookies_contains ''SID'' jar"
  by (simp add: cookies_contains_def find_no_duplicates_def not_found_def)

lemma authenticate_without_sid:
  assumes "net (sent w) (login_request c) = Inr response" and "status_code response = 200"
    and "filter (\<lambda>ck. ck_name ck = ''SID'') (cookies response) = []"
  shows "authenticate net (c, w) = (Inr (), c, w\<lparr>sent := sent w @ [login_request c]\<rparr>)"
  using assms no_sid_cookie [of "cookies response"]
  by (simp add: authenticate_def authenticate_body_def session_request_def)

lemma example_login:
  "truthy (username example_config)" "truthy (password example_config)"
  by (simp_all add: example_config_def)

text \<open>
  C5. For every construction with credentials present (user name and password both
  non-empty), when the login response has status 403 the constructor raises the
  authentication error (in the code a \<open>RuntimeError\<close> with the message
  \<open>Invalid Decypharr username or password\<close>) and yields no instance, so no operation can
  follow on it. Exactly one request, the login, has been sent: there is no retry.
\<close>

theorem init_forbidden:
  assumes "truthy (username cfg)" and "truthy (password cfg)"
    and "net (sent w) (login_request (new_client cfg)) = Inr response"
    and "status_code response = 403"
  shows "init net cfg w =
           (Inl (RuntimeError [Lit ''Invalid Decypharr username or password'']),
            w\<lparr>sent := sent w @ [login_request (new_client cfg)]\<rparr>)"
  using assms by (simp add: init_def authenticate_forbidden Let_def)

theorem init_forbidden_witness:
  "init (scripted [reply 403 ''Forbidden'']) example_config world0 =
     (Inl (RuntimeError [Lit ''Invalid Decypharr username or password'']),
      world0\<lparr>sent := [login_request (new_client example_config)]\<rparr>)"
  using init_forbidden [of example_config "scripted [reply 403 ''Forbidden'']" world0
      "\<lparr>status_code = 403, resp_text = ''Forbidden'', cookies = [],
        history_cookies = [], json = Inl (ValueError ''Expecting value'')\<rparr>"]
  by (simp add: example_login fixture_first reply_def)

lemma dispatched_without_token:
  "cookie c = None \<Longrightarrow> jar_after net history = Some jar \<Longrightarrow>
   dispatched_cookies return_ok net history (prepare c meth endpoint params data) =
     Some (map (\<lambda>ck. (ck_name ck, ck_value ck))
             (filter (\<lambda>ck. return_ok ck (base_url c @ endpoint)) jar))"
  by (simp add: dispatched_cookies_def prepare_def Let_def)

text \<open>
  C10, as the code has it. When the login response has status 200 and no \<open>SID\<close> cookie,
  construction succeeds silently: it yields the client with no session token, and logs
  nothing but the \<open>initialized\<close> line. On every request afterwards the client attaches no
  credential of its own: the dispatch primitive passes \<open>cookies=None\<close> to the session and
  sends the request as it would any other, and so does every lifecycle operation, for each
  request it makes. What the session adds from its own jar is not the client's doing and
  is not part of this.
\<close>

theorem init_without_sid:
  assumes "truthy (username cfg)" and "truthy (password cfg)"
    and "net (sent w) (login_request (new_client cfg)) = Inr response"
    and "status_code response = 200"
    and "filter (\<lambda>ck. ck_name ck = ''SID'') (cookies response) = []"
  shows "init net cfg w =
           (Inr (new_client cfg),
            log_info [Lit ''Decypharr client initialized: '', PStr (base_url (new_client cfg))]
              (w\<lparr>sent := sent w @ [login_request (new_client cfg)]\<rparr>)) \<and>
         cookie (new_client cfg) = None \<and>
         req_cookies (prepare (new_client cfg) meth endpoint params data) = None \<and>
         sent (snd (snd (request net' meth endpoint params data (new_client cfg, w')))) =
           sent w' @ [prepare (new_client cfg) meth endpoint params data] \<and>
         (\<forall>q \<in> set (drop (length (sent w'))
                     (sent (snd (snd (download_torrent net' get_torrent_hash r (new_client cfg, w')))))).
            req_cookies q = None) \<and>
         (\<forall>q \<in> set (drop (length (sent w'))
                     (sent (snd (snd (remove_torrent net' torrent delete_data (new_client cfg, w')))))).
            req_cookies q = None) \<and>
         (\<forall>q \<in> set (drop (length (sent w'))
                     (sent (snd (snd (pause_torrent net' torrent (new_client cfg, w')))))).
            req_cookies q = None) \<and>
         (\<forall>q \<in> set (drop (length (sent w'))
                     (sent (snd (snd (resume_torrent net' torrent (new_client cfg, w')))))).
            req_cookies q = None) \<and>
         (\<forall>q \<in> set (drop (length (sent w'))
                     (sent (snd (snd (get_torrent_status net' torrent (new_client cfg, w')))))).
            req_cookies q = None) \<and>
         (\<forall>q \<in> set (drop (length (sent w'))
                     (sent (snd (snd (get_torrent_files net' torrent (new_client cfg, w')))))).
            req_cookies q = None) \<and>
         (\<forall>q \<in> set (drop (length (sent w'))
                     (sent (snd (snd (health_check net' (new_client cfg, w')))))).
            req_cookies q = None)"
proof -
  let ?c = "new_client cfg"
  have ck: "cookie ?c = None"
    by (simp add: new_client_def)
  have built: "init net cfg w =
           (Inr ?c, log_info [Lit ''Decypharr client initialized: '', PStr (base_url ?c)]
              (w\<lparr>sent := sent w @ [login_request ?c]\<rparr>))"
    using assms by (simp add: init_def authenticate_without_sid Let_def)
  have prep: "req_cookies (prepare ?c meth endpoint params data) = None"
    by (simp add: prepare_cookies ck)
  have "\<forall>q \<in> set (drop (length (sent w'))
                     (sent (snd (snd (download_torrent net' get_torrent_hash r (?c, w')))))).
            req_cookies q = None"
    using download_torrent_effect [of net' get_torrent_hash r ?c w'] by (auto simp add: ck)
  moreover have "\<forall>q \<in> set (drop (length (sent w'))
                     (sent (snd (snd (remove_torrent net' torrent delete_data (?c, w')))))).
            req_cookies q = None"
    using remove_torrent_effect [of net' torrent delete_data ?c w'] by (auto simp add: ck)
  moreover have "\<forall>q \<in> set (drop (length (sent w'))
                     (sent (snd (snd (pause_torrent net' torrent (?c, w')))))).
            req_cookies q = None"
    using pause_torrent_effect [of net' torrent ?c w'] by (auto simp add: ck)
  moreover have "\<forall>q \<in> set (drop (length (sent w'))
                     (sent (snd (snd (resume_torrent net' torrent (?c, w')))))).
            req_cookies q = None"
    using resume_torrent_effect [of net' torrent ?c w'] by (auto simp add: ck)
  moreover have "\<forall>q \<in> set (drop (length (sent w'))
                     (sent (snd (snd (get_torrent_status net' torrent (?c, w')))))).
            req_cookies q = None"
    using get_torrent_status_effect [of net' torrent ?c w'] by (auto simp add: ck)
  moreover have "\<forall>q \<in> set (drop (length (sent w'))
                     (sent (snd (snd (get_torrent_files net' torrent (?c, w')))))).
            req_cookies q = None"
    using get_torrent_files_effect [of net' torrent ?c w'] by (auto simp add: ck)
  moreover have "\<forall>q \<in> set (drop (length (sent w'))
                     (sent (snd (snd (health_check net' (?c, w')))))).
            req_cookies q = None"
    using health_check_effect [of net' ?c w'] by (auto simp add: ck)
  ultimately show ?thesis
    using ck built prep request_sent [of net' meth endpoint params data ?c w'] by blast
qed

lemma example_init:
  assumes "filter (\<lambda>ck. ck_name ck = ''SID'') cks = []"
  shows "init (scripted [reply_cookies hops cks]) example_config world0 =
     (Inr (new_client example_config),
      log_info [Lit ''Decypharr client initialized: '', PStr ''http://decypharr:8282'']
        (world0\<lparr>sent := [login_request (new_client example_config)]\<rparr>))"
proof -
  have "base_url (new_client example_config) = ''http://decypharr:8282''"
    by (simp add: new_client_def example_config_def rstrip_slash_def)
  then show ?thesis
    using assms
    by (simp add: init_def Let_def example_login fixture_first reply_cookies_def
        authenticate_without_sid)
qed

theorem init_without_sid_witness:
  "init (scripted [reply_cookies [] [other_cookie]]) example_config world0 =
     (Inr (new_client example_config),
      log_info [Lit ''Decypharr client initialized: '', PStr ''http://decypharr:8282'']
        (world0\<lparr>sent := [login_request (new_client example_config)]\<rparr>)) \<and>
   cookie (new_client example_config) = None \<and>
   map req_cookies
     (sent (snd (snd (health_check (scripted []) (new_client example_config, world0))))) = [None]"
  using init_without_sid [of example_config "scripted [reply_cookies [] [other_cookie]]" world0
      "\<lparr>status_code = 200, resp_text = ''Ok.'', cookies = [other_cookie], history_cookies = [],
        json = Inl (ValueError ''Expecting value'')\<rparr>"
      "''GET''" "''/api/v2/app/version''" None None "scripted []" world0
      example_hash example_result example_torrent False]
  by (simp add: example_login fixture_first reply_cookies_def other_cookie_def health_check_cases
      request_cases log_error_def log_info_def)
    (simp add: new_client_def example_config_def rstrip_slash_def prepare_def)

text \<open>
  C10 as stated fails. A login answered 200 after a redirect response that set \<open>SID\<close>, or
  answered 200 with another cookie of the service, carries no \<open>SID\<close> cookie in
  \<open>response.cookies\<close>, so the client captures no token; yet the session has the cookie in its
  jar, and the next request is dispatched with it.
\<close>

theorem session_jar_counterexample:
  "fst (init (scripted [reply_cookies [sid_cookie] []]) example_config world0) =
     Inr (new_client example_config) \<and>
   cookie (new_client example_config) = None \<and>
   dispatched_cookies example_policy (scripted [reply_cookies [sid_cookie] []])
       (sent (snd (init (scripted [reply_cookies [sid_cookie] []]) example_config world0)))
       (prepare (new_client example_config) ''GET'' ''/api/v2/app/version'' None None) =
     Some [(''SID'', Some ''abc'')] \<and>
   fst (init (scripted [reply_cookies [] [other_cookie]]) example_config world0) =
     Inr (new_client example_config) \<and>
   dispatched_cookies example_policy (scripted [reply_cookies [] [other_cookie]])
       (sent (snd (init (scripted [reply_cookies [] [other_cookie]]) example_config world0)))
       (prepare (new_client example_config) ''GET'' ''/api/v2/app/version'' None None) =
     Some [(''auth-session'', Some ''xyz'')]"
proof -
  have hop: "init (scripted [reply_cookies [sid_cookie] []]) example_config world0 =
     (Inr (new_client example_config),
      log_info [Lit ''Decypharr client initialized: '', PStr ''http://decypharr:8282'']
        (world0\<lparr>sent := [login_request (new_client example_config)]\<rparr>))"
    by (rule example_init) simp
  have other: "init (scripted [reply_cookies [] [other_cookie]]) example_config world0 =
     (Inr (new_client example_config),
      log_info [Lit ''Decypharr client initialized: '', PStr ''http://decypharr:8282'']
        (world0\<lparr>sent := [login_request (new_client example_config)]\<rparr>))"
    by (rule example_init) (simp add: other_cookie_def)
  have no_token: "cookie (new_client example_config) = None"
    by (simp add: new_client_def)
  have jar_hop: "jar_after (scripted [reply_cookies [sid_cookie] []])
                   [login_request (new_client example_config)] = Some [sid_cookie]"
    by (simp add: jar_after_def set_cookie_def fixture_first reply_cookies_def)
  have jar_other: "jar_after (scripted [reply_cookies [] [other_cookie]])
                   [login_request (new_client example_config)] = Some [other_cookie]"
    by (simp add: jar_after_def set_cookie_def fixture_first reply_cookies_def)
  show ?thesis
    by (simp add: hop other no_token sent_log
        dispatched_without_token [OF no_token jar_hop]
        dispatched_without_token [OF no_token jar_other])
      (simp add: example_policy_def sid_cookie_def other_cookie_def)
qed

end
